theory Spec2Isabelle
  imports Complex_Main "HOL-Library.Sublist" "HOL-Library.Word"
begin

section \<open>JavaScript values handled by the operator UI\<close>

text \<open>
  The UI components receive whatever the REST client returns: any JSON value, or
  \<open>null\<close> before the first poll. A JavaScript number is a double; the model keeps
  the three non-finite values apart from the finite ones (negative zero is not told
  apart from zero, both are falsy). Strings are compared with \<open>===\<close> only, so a
  string is modelled by its bytes.
\<close>

datatype jsnum = NaN | PosInf | NegInf | Fin rat

datatype jsval =
    JUndefined
  | JNull
  | JBool bool
  | JNum jsnum
  | JStr string
  | JArr "jsval list"
  | JObj "(string \<times> jsval) list"

text \<open>\<open>x == null\<close>: the test behind \<open>?.\<close> and \<open>??\<close>.\<close>

fun nullish :: "jsval \<Rightarrow> bool" where
  "nullish JUndefined = True"
| "nullish JNull = True"
| "nullish _ = False"

text \<open>ToBoolean.\<close>

fun truthy :: "jsval \<Rightarrow> bool" where
  "truthy JUndefined = False"
| "truthy JNull = False"
| "truthy (JBool b) = b"
| "truthy (JNum NaN) = False"
| "truthy (JNum (Fin q)) = (q \<noteq> 0)"
| "truthy (JNum _) = True"
| "truthy (JStr s) = (s \<noteq> [])"
| "truthy (JArr _) = True"
| "truthy (JObj _) = True"

text \<open>
  \<open>v.k\<close> on a value that is neither \<open>null\<close> nor \<open>undefined\<close>. An object is a
  list of its own properties, the first binding of a key being the one that counts.
  The built-in properties of strings and arrays (\<open>length\<close> and the prototype's
  methods) are not modelled; the components below read \<open>status\<close> and \<open>jobs\<close> only.
\<close>

fun get_member :: "jsval \<Rightarrow> string \<Rightarrow> jsval" where
  "get_member (JObj fs) k = (case map_of fs k of None \<Rightarrow> JUndefined | Some v \<Rightarrow> v)"
| "get_member _ k = JUndefined"

text \<open>\<open>v?.k\<close>\<close>

definition opt_prop :: "jsval \<Rightarrow> string \<Rightarrow> jsval" where
  "opt_prop v k = (if nullish v then JUndefined else get_member v k)"

text \<open>\<open>a ?? b\<close>\<close>

definition coalesce :: "jsval \<Rightarrow> jsval \<Rightarrow> jsval" where
  "coalesce a b = (if nullish a then b else a)"

text \<open>\<open>v.k\<close> in general: reading a property of \<open>null\<close> or \<open>undefined\<close> throws.\<close>

datatype jserror = TypeError string | SyntaxError string | Error string

definition get_prop :: "jsval \<Rightarrow> string \<Rightarrow> jserror + jsval" where
  "get_prop v k =
     (if nullish v then Inl (TypeError ''property of null or undefined'') else Inr (get_member v k))"

section \<open>Job statuses\<close>

text \<open>The six statuses of the data model (spec, section 3).\<close>

definition spec_job_statuses :: "string list" where
  "spec_job_statuses = [''pending'', ''running'', ''paused'', ''done'', ''failed'', ''cancelled'']"

text \<open>The terminal statuses of the glossary (spec): done, failed and cancelled.\<close>

definition spec_terminal_statuses :: "string list" where
  "spec_terminal_statuses = [''done'', ''failed'', ''cancelled'']"

text \<open>ViewCreate.jsx, \<open>isTerminal\<close>.\<close>

definition isTerminal :: "jsval \<Rightarrow> bool" where
  "isTerminal status =
     (status = JStr ''done'' \<or> status = JStr ''failed'' \<or> status = JStr ''cancelled'')"

text \<open>JobTable.jsx, \<open>badgeClass\<close>: a \<open>switch\<close> compares with \<open>===\<close>.\<close>

definition badgeClass :: "jsval \<Rightarrow> string" where
  "badgeClass status =
     (if status = JStr ''running'' then ''badge running''
      else if status = JStr ''pending'' then ''badge pending''
      else if status = JStr ''done'' then ''badge done''
      else if status = JStr ''failed'' then ''badge failed''
      else if status = JStr ''cancelled'' then ''badge cancelled''
      else ''badge'')"

text \<open>JobTable.jsx, the values of the status filter's options, \<open>all\<close> apart.\<close>

definition status_filter_options :: "string list" where
  "status_filter_options = [''pending'', ''running'', ''done'', ''failed'', ''cancelled'']"

section \<open>Cancel and Retry buttons\<close>

text \<open>
  JobTable.jsx renders one row per job \<open>j\<close> with
  \<open>disabled={j.status !== "running" && j.status !== "pending"}\<close> on Cancel and
  \<open>disabled={j.status !== "failed" && j.status !== "cancelled"}\<close> on Retry.
\<close>

record row_actions =
  cancel_disabled :: bool
  retry_disabled :: bool

definition table_row_actions :: "jsval \<Rightarrow> jserror + row_actions" where
  "table_row_actions j =
     (case get_prop j ''status'' of
        Inl e \<Rightarrow> Inl e
      | Inr st \<Rightarrow> Inr \<lparr> cancel_disabled = (st \<noteq> JStr ''running'' \<and> st \<noteq> JStr ''pending''),
                       retry_disabled = (st \<noteq> JStr ''failed'' \<and> st \<noteq> JStr ''cancelled'') \<rparr>)"

text \<open>
  JobDrawer.jsx renders the two buttons inside \<open>{data && (...)}\<close>, with the same two
  expressions on \<open>data.status\<close>; \<open>None\<close> is the drawer without buttons.
\<close>

definition drawer_actions :: "jsval \<Rightarrow> row_actions option" where
  "drawer_actions data =
     (if truthy data
      then Some \<lparr> cancel_disabled =
                    (get_member data ''status'' \<noteq> JStr ''running'' \<and> get_member data ''status'' \<noteq> JStr ''pending''),
                  retry_disabled =
                    (get_member data ''status'' \<noteq> JStr ''failed'' \<and> get_member data ''status'' \<noteq> JStr ''cancelled'') \<rparr>
      else None)"

text \<open>The preconditions of the lifecycle operations (spec, section 4.5).\<close>

definition spec_cancel_precondition :: "string \<Rightarrow> bool" where
  "spec_cancel_precondition s = (s = ''pending'' \<or> s = ''running'')"

definition spec_retry_precondition :: "string \<Rightarrow> bool" where
  "spec_retry_precondition s = (s = ''failed'' \<or> s = ''cancelled'')"

section \<open>Rows of the job table\<close>

text \<open>
  JobTable.jsx: \<open>const rows = Array.isArray(data) ? data : (data?.jobs ?? [])\<close>.
\<close>

fun isArray :: "jsval \<Rightarrow> bool" where
  "isArray (JArr _) = True"
| "isArray _ = False"

definition rows :: "jsval \<Rightarrow> jsval" where
  "rows data = (if isArray data then data else coalesce (opt_prop data ''jobs'') (JArr []))"

fun has_jobs_field :: "jsval \<Rightarrow> bool" where
  "has_jobs_field (JObj fs) = (''jobs'' \<in> fst ` set fs)"
| "has_jobs_field _ = False"

text \<open>ViewCreate.jsx, \<open>submitJob\<close>: \<open>const st = j?.status ?? "pending"\<close>.\<close>

definition polled_status :: "jsval \<Rightarrow> jsval" where
  "polled_status j = coalesce (opt_prop j ''status'') (JStr ''pending'')"

section \<open>The REST client\<close>

text \<open>
  The second module of ViewIntegrate.jsx: \<open>http\<close> and the \<open>api\<close> object. The
  browser's \<open>fetch\<close> and \<open>JSON.parse\<close> are parameters. A response carries what
  \<open>http\<close> reads: \<open>status\<close>, \<open>statusText\<close>, the \<open>content-type\<close> header
  (\<open>headers.get\<close> gives \<open>null\<close> when there is none) and the body as text
  (\<open>None\<close> when reading the body rejects).
\<close>

record response =
  status :: nat
  statusText :: string
  content_type :: "string option"
  body :: "string option"

text \<open>\<open>res.ok\<close>: the status is in the range 200 to 299.\<close>

definition ok :: "response \<Rightarrow> bool" where
  "ok res = (200 \<le> status res \<and> status res \<le> 299)"

record opts =
  opt_headers :: "(string \<times> string) list option"
  opt_method :: "string option"
  opt_body :: "string option"

record request =
  req_url :: string
  req_headers :: "(string \<times> string) list"
  req_method :: "string option"
  req_body :: "string option"

text \<open>
  \<open>String.prototype.includes\<close>. The needle below is ASCII, so searching the bytes
  of the UTF-8 text finds what searching the code units finds.
\<close>

fun js_includes :: "string \<Rightarrow> string \<Rightarrow> bool" where
  "js_includes [] sub = (sub = [])"
| "js_includes (c # cs) sub = (prefix sub (c # cs) \<or> js_includes cs sub)"

text \<open>A status code in a template literal: its decimal digits.\<close>

definition digit :: "nat \<Rightarrow> char" where
  "digit d = ''0123456789'' ! d"

function show_nat :: "nat \<Rightarrow> string" where
  "show_nat n = (if n < 10 then [digit n] else show_nat (n div 10) @ [digit (n mod 10)])"
  by pat_completeness auto
termination
  by (relation "measure id") auto

declare show_nat.simps [simp del]

text \<open>\<open>const API_URL = import.meta.env.VITE_API_URL ?? "http://localhost:8080"\<close>\<close>

definition API_URL :: "string option \<Rightarrow> string" where
  "API_URL env = (case env of None \<Rightarrow> ''http://localhost:8080'' | Some u \<Rightarrow> u)"

text \<open>
  The two arguments of \<open>fetch\<close>. The spread \<open>...opts\<close> comes after \<open>headers\<close>,
  so the headers of \<open>opts\<close>, when it has any, replace the merged ones.
\<close>

definition http_request :: "string option \<Rightarrow> string \<Rightarrow> opts \<Rightarrow> request" where
  "http_request env path os =
     \<lparr> req_url = API_URL env @ path,
       req_headers = (case opt_headers os of
                        None \<Rightarrow> [(''Content-Type'', ''application/json'')]
                      | Some hs \<Rightarrow> hs),
       req_method = opt_method os,
       req_body = opt_body os \<rparr>"

datatype http_value = Parsed jsval | Raw string

text \<open>\<open>res.headers.get("content-type") || ""\<close>\<close>

definition ct :: "response \<Rightarrow> string" where
  "ct res = (case content_type res of None \<Rightarrow> [] | Some c \<Rightarrow> if c = [] then [] else c)"

text \<open>\<open>await res.text().catch(() => "")\<close>\<close>

definition text_or_empty :: "response \<Rightarrow> string" where
  "text_or_empty res = (case body res of None \<Rightarrow> [] | Some t \<Rightarrow> t)"

definition http ::
  "(string \<Rightarrow> jsval option) \<Rightarrow> (request \<Rightarrow> jserror + response) \<Rightarrow> string option
     \<Rightarrow> string \<Rightarrow> opts \<Rightarrow> jserror + http_value" where
  "http parse fetch env path os =
     (case fetch (http_request env path os) of
        Inl e \<Rightarrow> Inl e
      | Inr res \<Rightarrow>
          if \<not> ok res
          then Inl (Error (show_nat (status res) @ '' '' @ statusText res @
                      (if text_or_empty res \<noteq> [] then '': '' @ text_or_empty res else [])))
          else if js_includes (ct res) ''application/json''
          then (case body res of
                  None \<Rightarrow> Inl (TypeError ''body'')
                | Some t \<Rightarrow> (case parse t of
                              None \<Rightarrow> Inl (SyntaxError ''JSON'')
                            | Some v \<Rightarrow> Inr (Parsed v)))
          else (case body res of
                  None \<Rightarrow> Inl (TypeError ''body'')
                | Some t \<Rightarrow> Inr (Raw t)))"

section \<open>The Create Job dialog\<close>

text \<open>
  CreateJobModal (src/unnamed/part_006). What the operator types is a JavaScript string:
  a list of UTF-16 code units. \<open>String.prototype.trim\<close> removes the white space and
  line terminators of ECMAScript from both ends.
\<close>

type_synonym ustring = "16 word list"

definition js_whitespace :: "16 word \<Rightarrow> bool" where
  "js_whitespace c =
     (c \<in> {0x0009, 0x000A, 0x000B, 0x000C, 0x000D, 0x0020, 0x00A0, 0x1680,
            0x2000, 0x2001, 0x2002, 0x2003, 0x2004, 0x2005, 0x2006, 0x2007, 0x2008,
            0x2009, 0x200A, 0x2028, 0x2029, 0x202F, 0x205F, 0x3000, 0xFEFF})"

definition js_trim :: "ustring \<Rightarrow> ustring" where
  "js_trim s = rev (dropWhile js_whitespace (rev (dropWhile js_whitespace s)))"

datatype parsed = ParseOk jsval | ParseFailed

text \<open>\<open>safeParseJson\<close>; \<open>JSON.parse\<close> is the parameter, \<open>None\<close> where it throws.\<close>

definition safeParseJson :: "(ustring \<Rightarrow> jsval option) \<Rightarrow> ustring \<Rightarrow> parsed" where
  "safeParseJson parse txt = (case parse txt of Some v \<Rightarrow> ParseOk v | None \<Rightarrow> ParseFailed)"

text \<open>
  The priority is the number 0 until the operator edits the field, and the field's text
  from then on.
\<close>

datatype priority_input = PNum jsnum | PText ustring

record modal =
  kind :: ustring
  queue :: ustring
  priority :: priority_input
  payloadText :: ustring
  submitting :: bool
  err :: string

record job_body =
  job_kind :: ustring
  job_queue :: ustring
  job_priority :: jsnum
  job_payload :: jsval

text \<open>\<open>Number(priority)\<close>; the conversion of a string to a number is a parameter.\<close>

definition Number :: "(ustring \<Rightarrow> jsnum) \<Rightarrow> priority_input \<Rightarrow> jsnum" where
  "Number to_number p = (case p of PNum n \<Rightarrow> n | PText t \<Rightarrow> to_number t)"

text \<open>\<open>n || 0\<close>\<close>

definition or_zero :: "jsnum \<Rightarrow> jsnum" where
  "or_zero n = (if truthy (JNum n) then n else Fin 0)"

definition canSubmit :: "(ustring \<Rightarrow> jsval option) \<Rightarrow> modal \<Rightarrow> bool" where
  "canSubmit parse m =
     (length (js_trim (kind m)) > 0 \<and> length (js_trim (queue m)) > 0
      \<and> safeParseJson parse (payloadText m) \<noteq> ParseFailed \<and> \<not> submitting m)"

text \<open>\<open>String(e.message || e)\<close>\<close>

fun error_text :: "jserror \<Rightarrow> string" where
  "error_text (Error msg) = (if msg \<noteq> [] then msg else ''Error'')"
| "error_text (TypeError msg) = (if msg \<noteq> [] then msg else ''TypeError'')"
| "error_text (SyntaxError msg) = (if msg \<noteq> [] then msg else ''SyntaxError'')"

text \<open>
  What one call of \<open>submit\<close> leaves behind: the dialog's state, the body handed to
  \<open>api.postJob\<close> if it was called, and whether the dialog was closed
  (\<open>onCreated\<close> and \<open>onClose\<close> run after a successful post).
\<close>

record submitted =
  after :: modal
  posted :: "job_body option"
  closed :: bool

definition submit ::
  "(ustring \<Rightarrow> jsval option) \<Rightarrow> (ustring \<Rightarrow> jsnum) \<Rightarrow> (job_body \<Rightarrow> jserror + http_value)
     \<Rightarrow> modal \<Rightarrow> submitted" where
  "submit parse to_number postJob m =
     (case safeParseJson parse (payloadText m) of
        ParseFailed \<Rightarrow>
          \<lparr> after = m\<lparr> err := ''Payload must be valid JSON.'' \<rparr>, posted = None, closed = False \<rparr>
      | ParseOk v \<Rightarrow>
          let job = \<lparr> job_kind = js_trim (kind m),
                      job_queue = js_trim (queue m),
                      job_priority = or_zero (Number to_number (priority m)),
                      job_payload = v \<rparr>
          in (case postJob job of
                Inr created \<Rightarrow>
                  \<lparr> after = m\<lparr> err := [], submitting := False \<rparr>, posted = Some job, closed = True \<rparr>
              | Inl e \<Rightarrow>
                  \<lparr> after = m\<lparr> err := error_text e, submitting := False \<rparr>, posted = Some job,
                    closed = False \<rparr>))"

text \<open>
  The Create Job button: \<open>onClick={submit} disabled={!canSubmit}\<close>, the only place
  that calls \<open>submit\<close>. A disabled button does not fire.
\<close>

definition create_clicked ::
  "(ustring \<Rightarrow> jsval option) \<Rightarrow> (ustring \<Rightarrow> jsnum) \<Rightarrow> (job_body \<Rightarrow> jserror + http_value)
     \<Rightarrow> modal \<Rightarrow> submitted" where
  "create_clicked parse to_number postJob m =
     (if canSubmit parse m then submit parse to_number postJob m
      else \<lparr> after = m, posted = None, closed = False \<rparr>)"

section \<open>The persisted schema\<close>

text \<open>
  The orchestrator's migrations are SQL: \<open>CREATE TABLE IF NOT EXISTS\<close>,
  \<open>ALTER TABLE ... ADD COLUMN IF NOT EXISTS\<close> and \<open>CREATE INDEX IF NOT EXISTS\<close>.
  A migration is a list of statements, and running the migrations in order gives the
  schema: the tables with their columns, and the indexes.
\<close>

text \<open>\<open>INTEGER\<close> is SQL's \<open>INT\<close>.\<close>

datatype sqltype = UUID | TEXT | JSONB | TIMESTAMPTZ | INTEGER | BIGSERIAL

text \<open>
  The values of these types. A uuid is its 128 bits. A timestamp is a number of
  microseconds, counted from the first instant of the year 2000 as the database does.
  An integer value is a mathematical integer, whose range the column decides.
\<close>

datatype sqlval =
    SqlNull
  | SqlText string
  | SqlInt int
  | SqlTimestamp int
  | SqlUuid "128 word"
  | SqlJsonb jsval

datatype column_default = Literal sqlval | NOW

record column =
  col_name :: string
  col_type :: sqltype
  not_null :: bool
  col_default :: "column_default option"
  primary_key :: bool
  references :: "(string \<times> string) option"
  on_delete_cascade :: bool

datatype sort_order = ASC | DESC

datatype index_predicate = IS_NULL string

record index =
  idx_name :: string
  idx_table :: string
  idx_columns :: "(string \<times> sort_order option) list"
  idx_where :: "index_predicate option"

datatype statement =
    CREATE_TABLE string "column list"
  | ALTER_TABLE_ADD string "column list"
  | CREATE_INDEX index

record schema =
  tables :: "(string \<times> column list) list"
  indexes :: "index list"

definition col ::
  "string \<Rightarrow> sqltype \<Rightarrow> bool \<Rightarrow> column_default option \<Rightarrow> column" where
  "col n t nn d =
     \<lparr> col_name = n, col_type = t, not_null = nn, col_default = d, primary_key = False,
       references = None, on_delete_cascade = False \<rparr>"

definition pk :: "string \<Rightarrow> sqltype \<Rightarrow> column" where
  "pk n t =
     \<lparr> col_name = n, col_type = t, not_null = True, col_default = None, primary_key = True,
       references = None, on_delete_cascade = False \<rparr>"

definition fk :: "string \<Rightarrow> sqltype \<Rightarrow> string \<Rightarrow> string \<Rightarrow> bool \<Rightarrow> column" where
  "fk n t rt rc cascade =
     \<lparr> col_name = n, col_type = t, not_null = True, col_default = None, primary_key = False,
       references = Some (rt, rc), on_delete_cascade = cascade \<rparr>"

definition has_column :: "column list \<Rightarrow> string \<Rightarrow> bool" where
  "has_column cs n = (n \<in> set (map col_name cs))"

definition predicate_column :: "index_predicate \<Rightarrow> string" where
  "predicate_column p = (case p of IS_NULL c \<Rightarrow> c)"

text \<open>
  One statement; \<open>None\<close> is an error of the database (a table or a column that does
  not exist). \<open>IF NOT EXISTS\<close> skips what is there already.
\<close>

fun exec :: "statement \<Rightarrow> schema \<Rightarrow> schema option" where
  "exec (CREATE_TABLE t cs) s =
     (if t \<in> set (map fst (tables s)) then Some s
      else if list_all (\<lambda>c. case references c of
                               None \<Rightarrow> True
                             | Some (rt, rc) \<Rightarrow>
                                 (case map_of (tables s) rt of
                                    None \<Rightarrow> False
                                  | Some rcs \<Rightarrow> has_column rcs rc)) cs
      then Some (s\<lparr> tables := tables s @ [(t, cs)] \<rparr>)
      else None)"
| "exec (ALTER_TABLE_ADD t cs) s =
     (case map_of (tables s) t of
        None \<Rightarrow> None
      | Some old \<Rightarrow>
          Some (s\<lparr> tables :=
                  map (\<lambda>(n, ocs). if n = t
                                   then (n, ocs @ filter (\<lambda>c. \<not> has_column ocs (col_name c)) cs)
                                   else (n, ocs))
                      (tables s) \<rparr>))"
| "exec (CREATE_INDEX i) s =
     (if idx_name i \<in> set (map idx_name (indexes s)) then Some s
      else (case map_of (tables s) (idx_table i) of
              None \<Rightarrow> None
            | Some cs \<Rightarrow>
                if list_all (has_column cs) (map fst (idx_columns i))
                   \<and> (case idx_where i of None \<Rightarrow> True | Some p \<Rightarrow> has_column cs (predicate_column p))
                then Some (s\<lparr> indexes := indexes s @ [i] \<rparr>)
                else None))"

fun run :: "statement list \<Rightarrow> schema \<Rightarrow> schema option" where
  "run [] s = Some s"
| "run (st # sts) s = (case exec st s of None \<Rightarrow> None | Some s' \<Rightarrow> run sts s')"

text \<open>
  src/unnamed/part_000: jobs and job_events. The last argument of \<open>fk\<close> is
  \<open>ON DELETE CASCADE\<close>.
\<close>

definition migration_init :: "statement list" where
  "migration_init =
     [CREATE_TABLE ''jobs''
        [pk ''id'' UUID,
         col ''kind'' TEXT True None,
         col ''status'' TEXT True (Some (Literal (SqlText ''pending''))),
         col ''payload'' JSONB True (Some (Literal (SqlJsonb (JObj [])))),
         col ''error'' TEXT False None,
         col ''created_at'' TIMESTAMPTZ True (Some NOW),
         col ''updated_at'' TIMESTAMPTZ True (Some NOW)],
      CREATE_TABLE ''job_events''
        [pk ''id'' BIGSERIAL,
         fk ''job_id'' UUID ''jobs'' ''id'' False,
         col ''ts'' TIMESTAMPTZ True (Some NOW),
         col ''event'' JSONB True None],
      CREATE_INDEX \<lparr> idx_name = ''idx_jobs_status_created'', idx_table = ''jobs'',
                     idx_columns = [(''status'', None), (''created_at'', None)],
                     idx_where = None \<rparr>,
      CREATE_INDEX \<lparr> idx_name = ''idx_job_events_job_id'', idx_table = ''job_events'',
                     idx_columns = [(''job_id'', None)], idx_where = None \<rparr>]"

text \<open>src/unnamed/part_004: leases and attempts.\<close>

definition migration_leases :: "statement list" where
  "migration_leases =
     [ALTER_TABLE_ADD ''jobs''
        [col ''lease_owner'' TEXT False None,
         col ''lease_until'' TIMESTAMPTZ False None,
         col ''attempts'' INTEGER True (Some (Literal (SqlInt 0)))],
      CREATE_INDEX \<lparr> idx_name = ''idx_jobs_claim'', idx_table = ''jobs'',
                     idx_columns = [(''status'', None), (''lease_until'', None),
                                    (''created_at'', None)],
                     idx_where = None \<rparr>]"

text \<open>migrations/20241222000002_concurrency.sql\<close>

definition migration_concurrency :: "statement list" where
  "migration_concurrency =
     [CREATE_TABLE ''dataset_locks''
        [pk ''dataset_id'' TEXT,
         fk ''job_id'' UUID ''jobs'' ''id'' True,
         col ''lease_until'' TIMESTAMPTZ True None],
      CREATE_INDEX \<lparr> idx_name = ''idx_dataset_locks_lease_until'',
                     idx_table = ''dataset_locks'',
                     idx_columns = [(''lease_until'', None)], idx_where = None \<rparr>,
      CREATE_INDEX \<lparr> idx_name = ''idx_jobs_status_attempts_created'', idx_table = ''jobs'',
                     idx_columns = [(''status'', None), (''attempts'', None),
                                    (''created_at'', None)],
                     idx_where = None \<rparr>]"

text \<open>migrations/20241222000003_priority.sql\<close>

definition migration_priority :: "statement list" where
  "migration_priority =
     [ALTER_TABLE_ADD ''jobs'' [col ''priority'' INTEGER True (Some (Literal (SqlInt 0)))],
      CREATE_INDEX \<lparr> idx_name = ''idx_jobs_priority_status_created'', idx_table = ''jobs'',
                     idx_columns = [(''status'', None), (''priority'', Some DESC),
                                    (''created_at'', Some ASC)],
                     idx_where = None \<rparr>]"

text \<open>migrations/20241222000004_queues.sql\<close>

definition migration_queues :: "statement list" where
  "migration_queues =
     [ALTER_TABLE_ADD ''jobs'' [col ''queue'' TEXT True (Some (Literal (SqlText ''default'')))],
      CREATE_INDEX \<lparr> idx_name = ''idx_jobs_queue_status_priority_created'',
                     idx_table = ''jobs'',
                     idx_columns = [(''queue'', None), (''status'', None),
                                    (''priority'', Some DESC), (''created_at'', None)],
                     idx_where = None \<rparr>]"

text \<open>src/unnamed/part_003: workers.\<close>

definition migration_workers :: "statement list" where
  "migration_workers =
     [CREATE_TABLE ''workers''
        [pk ''id'' TEXT,
         col ''hostname'' TEXT True None,
         col ''last_heartbeat'' TIMESTAMPTZ True (Some NOW),
         col ''started_at'' TIMESTAMPTZ True (Some NOW)],
      CREATE_INDEX \<lparr> idx_name = ''idx_workers_last_heartbeat'', idx_table = ''workers'',
                     idx_columns = [(''last_heartbeat'', None)], idx_where = None \<rparr>]"

text \<open>
  src/unnamed/part_002: the webhook outbox. The comment on the status column names
  four values.
\<close>

definition migration_outbox :: "statement list" where
  "migration_outbox =
     [CREATE_TABLE ''webhook_outbox''
        [pk ''id'' UUID,
         fk ''job_id'' UUID ''jobs'' ''id'' True,
         col ''event'' JSONB True None,
         col ''status'' TEXT True (Some (Literal (SqlText ''pending''))),
         col ''attempts'' INTEGER True (Some (Literal (SqlInt 0))),
         col ''next_attempt_at'' TIMESTAMPTZ True (Some NOW),
         col ''created_at'' TIMESTAMPTZ True (Some NOW),
         col ''delivered_at'' TIMESTAMPTZ False None,
         col ''locked_by'' TEXT False None,
         col ''locked_until'' TIMESTAMPTZ False None,
         col ''last_error'' TEXT False None],
      CREATE_INDEX \<lparr> idx_name = ''idx_webhook_outbox_due'', idx_table = ''webhook_outbox'',
                     idx_columns = [(''next_attempt_at'', None)],
                     idx_where = Some (IS_NULL ''delivered_at'') \<rparr>,
      CREATE_INDEX \<lparr> idx_name = ''idx_webhook_outbox_locked'', idx_table = ''webhook_outbox'',
                     idx_columns = [(''locked_until'', None)],
                     idx_where = Some (IS_NULL ''delivered_at'') \<rparr>]"

text \<open>
  The migrations in the order of their dependencies: the table jobs first, the columns
  an index names before the index. (The pgvector table of src/unnamed/part_001 belongs
  to the document store and is left out.)
\<close>

definition migrations :: "statement list" where
  "migrations =
     migration_init @ migration_leases @ migration_concurrency @ migration_priority
     @ migration_queues @ migration_workers @ migration_outbox"

definition persisted_schema :: "schema option" where
  "persisted_schema = run migrations \<lparr> tables = [], indexes = [] \<rparr>"

definition table_columns :: "string \<Rightarrow> column list" where
  "table_columns t =
     (case persisted_schema of
        None \<Rightarrow> []
      | Some s \<Rightarrow> (case map_of (tables s) t of None \<Rightarrow> [] | Some cs \<Rightarrow> cs))"

definition find_index :: "string \<Rightarrow> index option" where
  "find_index n =
     (case persisted_schema of
        None \<Rightarrow> None
      | Some s \<Rightarrow> find (\<lambda>i. idx_name i = n) (indexes s))"

text \<open>An index column without a direction is ascending.\<close>

definition index_key :: "index \<Rightarrow> (string \<times> sort_order) list" where
  "index_key i = map (\<lambda>(c, d). (c, case d of None \<Rightarrow> ASC | Some o' \<Rightarrow> o')) (idx_columns i)"

section \<open>Rows and the constraints of the schema\<close>

text \<open>
  A row gives a value to every column of its table. The database checks what the
  schema declares: the column types, \<open>NOT NULL\<close>, \<open>PRIMARY KEY\<close> and
  \<open>REFERENCES\<close>. (The sequence behind \<open>BIGSERIAL\<close> is not modelled: an INSERT into
  job_events names its id.)
\<close>

type_synonym row = "(string \<times> sqlval) list"

type_synonym database = "string \<Rightarrow> row list"

datatype sql_error =
    undefined_table string
  | undefined_column string
  | duplicate_column string
  | datatype_mismatch string
  | character_not_in_repertoire string
  | numeric_value_out_of_range string
  | not_null_violation string
  | unique_violation string
  | foreign_key_violation string

text \<open>
  A text value has no zero byte. (A character stands for the code point of its number,
  so that every other string is a text of the database's encoding.)
\<close>

definition valid_text :: "string \<Rightarrow> bool" where
  "valid_text s = (CHR 0x00 \<notin> set s)"

text \<open>
  A jsonb value is a JSON value: no \<open>undefined\<close>, no number that is not finite, every
  key of an object once, and text without zero bytes. (These are the values of the type,
  not their input texts: the input conversion of jsonb keeps the last of equal keys.)
\<close>

fun is_json :: "jsval \<Rightarrow> bool" where
  "is_json JUndefined = False"
| "is_json JNull = True"
| "is_json (JBool b) = True"
| "is_json (JNum n) = (case n of Fin q \<Rightarrow> True | _ \<Rightarrow> False)"
| "is_json (JStr s) = valid_text s"
| "is_json (JArr vs) = (\<forall>v \<in> set vs. is_json v)"
| "is_json (JObj fs) =
     (distinct (map fst fs) \<and> (\<forall>kv \<in> set fs. valid_text (fst kv) \<and> is_json (snd kv)))"

text \<open>
  The timestamps of the database: from the year 4713 BC to the end of the year 294276,
  in microseconds from the year 2000.
\<close>

definition valid_timestamp :: "int \<Rightarrow> bool" where
  "valid_timestamp x = (- 211813488000000000 \<le> x \<and> x < 9223371331200000000)"

text \<open>
  A value of a column's own type: an \<open>INT\<close> of 32 bits, a \<open>BIGSERIAL\<close> of 64.
\<close>

fun has_type :: "sqlval \<Rightarrow> sqltype \<Rightarrow> bool" where
  "has_type SqlNull t = True"
| "has_type (SqlText s) t = (t = TEXT \<and> valid_text s)"
| "has_type (SqlInt n) t =
     ((t = INTEGER \<and> - 2147483648 \<le> n \<and> n \<le> 2147483647)
      \<or> (t = BIGSERIAL \<and> - 9223372036854775808 \<le> n \<and> n \<le> 9223372036854775807))"
| "has_type (SqlTimestamp x) t = (t = TIMESTAMPTZ \<and> valid_timestamp x)"
| "has_type (SqlUuid u) t = (t = UUID)"
| "has_type (SqlJsonb v) t = (t = JSONB \<and> is_json v)"

text \<open>
  What is not text is cast to text when it is assigned to a text column: every integer,
  and the values of the other types.
\<close>

fun casts_to_text :: "sqlval \<Rightarrow> bool" where
  "casts_to_text SqlNull = False"
| "casts_to_text (SqlText s) = False"
| "casts_to_text (SqlInt n) = True"
| "casts_to_text (SqlTimestamp x) = valid_timestamp x"
| "casts_to_text (SqlUuid u) = True"
| "casts_to_text (SqlJsonb v) = is_json v"

fun is_integer :: "sqlval \<Rightarrow> bool" where
  "is_integer (SqlInt n) = True"
| "is_integer _ = False"

fun is_text :: "sqlval \<Rightarrow> bool" where
  "is_text (SqlText s) = True"
| "is_text _ = False"

text \<open>
  The value a column stores when \<open>v\<close> is assigned to it. The text that a value is
  cast to (the output of its type) is the parameter \<open>to_text\<close>. Nothing but text is
  the target of a cast in an assignment, the width of an integer apart.
\<close>

definition assign :: "(sqlval \<Rightarrow> string) \<Rightarrow> column \<Rightarrow> sqlval \<Rightarrow> sql_error + sqlval" where
  "assign to_text c v =
     (if has_type v (col_type c) then Inr v
      else if col_type c = TEXT \<and> casts_to_text v then Inr (SqlText (to_text v))
      else if is_integer v \<and> (col_type c = INTEGER \<or> col_type c = BIGSERIAL)
      then Inl (numeric_value_out_of_range (col_name c))
      else if is_text v \<and> col_type c = TEXT
      then Inl (character_not_in_repertoire (col_name c))
      else Inl (datatype_mismatch (col_name c)))"

definition field :: "row \<Rightarrow> string \<Rightarrow> sqlval" where
  "field r n = (case map_of r n of None \<Rightarrow> SqlNull | Some v \<Rightarrow> v)"

definition default_value :: "int \<Rightarrow> column \<Rightarrow> sqlval" where
  "default_value now c =
     (case col_default c of
        None \<Rightarrow> SqlNull
      | Some (Literal v) \<Rightarrow> v
      | Some NOW \<Rightarrow> SqlTimestamp now)"

text \<open>
  The value of one column in the row of \<open>INSERT INTO t (given columns) VALUES
  (given values)\<close> at time \<open>now\<close>: a column the statement leaves out takes its
  default.
\<close>

definition stored ::
  "(sqlval \<Rightarrow> string) \<Rightarrow> int \<Rightarrow> (string \<times> sqlval) list \<Rightarrow> column \<Rightarrow> sql_error + sqlval" where
  "stored to_text now given c =
     (case assign to_text c (case map_of given (col_name c) of
                               Some v \<Rightarrow> v
                             | None \<Rightarrow> default_value now c) of
        Inl e \<Rightarrow> Inl e
      | Inr v \<Rightarrow> if not_null c \<and> v = SqlNull then Inl (not_null_violation (col_name c))
                else Inr v)"

fun build :: "(column \<Rightarrow> sql_error + sqlval) \<Rightarrow> column list \<Rightarrow> sql_error + row" where
  "build f [] = Inr []"
| "build f (c # cs) =
     (case f c of
        Inl e \<Rightarrow> Inl e
      | Inr v \<Rightarrow> (case build f cs of Inl e \<Rightarrow> Inl e | Inr r \<Rightarrow> Inr ((col_name c, v) # r)))"

definition insert_row ::
  "(sqlval \<Rightarrow> string) \<Rightarrow> int \<Rightarrow> column list \<Rightarrow> (string \<times> sqlval) list \<Rightarrow> sql_error + row" where
  "insert_row to_text now cs given =
     (case find (\<lambda>(n, v). \<not> has_column cs n) given of
        Some (n, v) \<Rightarrow> Inl (undefined_column n)
      | None \<Rightarrow>
          if \<not> distinct (map fst given) then Inl (duplicate_column (concat (map fst given)))
          else build (stored to_text now given) cs)"

text \<open>A row as a table holds it: every value of its column's type, none missing.\<close>

definition check_row :: "column list \<Rightarrow> row \<Rightarrow> sql_error option" where
  "check_row cs r =
     (if map fst r \<noteq> map col_name cs then Some (undefined_column (concat (map fst r)))
      else (case find (\<lambda>c. \<not> has_type (field r (col_name c)) (col_type c)) cs of
              Some c \<Rightarrow> Some (datatype_mismatch (col_name c))
            | None \<Rightarrow>
                (case find (\<lambda>c. not_null c \<and> field r (col_name c) = SqlNull) cs of
                   Some c \<Rightarrow> Some (not_null_violation (col_name c))
                 | None \<Rightarrow> None)))"

definition key_of :: "column list \<Rightarrow> row \<Rightarrow> sqlval list" where
  "key_of cs r = map (\<lambda>c. field r (col_name c)) (filter primary_key cs)"

text \<open>A foreign key that is not null names a row of the table it references.\<close>

definition references_ok :: "database \<Rightarrow> column list \<Rightarrow> row \<Rightarrow> bool" where
  "references_ok db cs r =
     list_all (\<lambda>c. case references c of
                     None \<Rightarrow> True
                   | Some (rt, rc) \<Rightarrow>
                       field r (col_name c) = SqlNull
                       \<or> field r (col_name c) \<in> set (map (\<lambda>p. field p rc) (db rt))) cs"

definition table_names :: "string list" where
  "table_names = (case persisted_schema of None \<Rightarrow> [] | Some s \<Rightarrow> map fst (tables s))"

definition insert_into ::
  "(sqlval \<Rightarrow> string) \<Rightarrow> int \<Rightarrow> database \<Rightarrow> string \<Rightarrow> (string \<times> sqlval) list
     \<Rightarrow> sql_error + database" where
  "insert_into to_text now db t given =
     (if t \<notin> set table_names then Inl (undefined_table t)
      else (case insert_row to_text now (table_columns t) given of
              Inl e \<Rightarrow> Inl e
            | Inr r \<Rightarrow>
                if key_of (table_columns t) r \<in> set (map (key_of (table_columns t)) (db t))
                then Inl (unique_violation t)
                else if \<not> references_ok db (table_columns t) r
                then Inl (foreign_key_violation t)
                else Inr (db(t := db t @ [r]))))"

text \<open>
  The rows of table \<open>u\<close> that reference, through column \<open>c\<close>, one of the rows
  \<open>gone\<close> of the table being deleted from.
\<close>

definition referencing :: "column \<Rightarrow> string \<Rightarrow> row list \<Rightarrow> row \<Rightarrow> bool" where
  "referencing c t gone r =
     (case references c of
        None \<Rightarrow> False
      | Some (rt, rc) \<Rightarrow>
          rt = t \<and> field r (col_name c) \<noteq> SqlNull
          \<and> field r (col_name c) \<in> set (map (\<lambda>p. field p rc) gone))"

text \<open>
  \<open>DELETE FROM t WHERE p\<close>: the rows go, the rows that reference them with
  \<open>ON DELETE CASCADE\<close> go with them, and a reference without it stops the statement.
\<close>

definition delete_from :: "database \<Rightarrow> string \<Rightarrow> (row \<Rightarrow> bool) \<Rightarrow> sql_error + database" where
  "delete_from db t p =
     (if t \<notin> set table_names then Inl (undefined_table t)
      else let gone = filter p (db t) in
        if list_ex (\<lambda>u. list_ex (\<lambda>c. \<not> on_delete_cascade c
                                       \<and> list_ex (referencing c t gone) (db u))
                              (table_columns u)) table_names
        then Inl (foreign_key_violation t)
        else Inr (\<lambda>u. filter (\<lambda>r. \<not> (u = t \<and> p r)
                                   \<and> \<not> list_ex (\<lambda>c. on_delete_cascade c \<and> referencing c t gone r)
                                          (table_columns u))
                              (db u)))"

text \<open>
  \<open>UPDATE t SET ... WHERE p\<close>, the assignment being any function on rows: the
  statement stands when the new rows are rows of the table, the keys of the table are
  still unique, and every foreign key of the database still names a row.
\<close>

definition update_rows ::
  "database \<Rightarrow> string \<Rightarrow> (row \<Rightarrow> bool) \<Rightarrow> (row \<Rightarrow> row) \<Rightarrow> sql_error + database" where
  "update_rows db t p f =
     (if t \<notin> set table_names then Inl (undefined_table t)
      else let rs = map (\<lambda>r. if p r then f r else r) (db t) in
        (case find (\<lambda>r. check_row (table_columns t) r \<noteq> None) rs of
           Some r \<Rightarrow> Inl (case check_row (table_columns t) r of
                            Some e \<Rightarrow> e
                          | None \<Rightarrow> datatype_mismatch t)
         | None \<Rightarrow>
             if \<not> distinct (map (key_of (table_columns t)) rs)
             then Inl (unique_violation t)
             else if \<not> list_all (\<lambda>u. list_all (references_ok (db(t := rs)) (table_columns u))
                                         ((db(t := rs)) u))
                              table_names
             then Inl (foreign_key_violation t)
             else Inr (db(t := rs))))"

text \<open>The states of the database: what the three statements lead to from no rows.\<close>

inductive reachable :: "database \<Rightarrow> bool" where
  empty: "reachable (\<lambda>t. [])"
| inserted: "reachable db \<Longrightarrow> insert_into to_text now db t given = Inr db' \<Longrightarrow> reachable db'"
| deleted: "reachable db \<Longrightarrow> delete_from db t p = Inr db' \<Longrightarrow> reachable db'"
| updated: "reachable db \<Longrightarrow> update_rows db t p f = Inr db' \<Longrightarrow> reachable db'"

section \<open>Dataset locks and running jobs\<close>

text \<open>The rows of dataset_locks for one dataset.\<close>

definition lock_rows :: "database \<Rightarrow> string \<Rightarrow> row list" where
  "lock_rows db d = filter (\<lambda>r. field r ''dataset_id'' = SqlText d) (db ''dataset_locks'')"

text \<open>The job of row \<open>j\<close> holds the lock of dataset \<open>d\<close>: a lock row of \<open>d\<close> names it.\<close>

definition holds :: "database \<Rightarrow> row \<Rightarrow> string \<Rightarrow> bool" where
  "holds db j d = list_ex (\<lambda>r. field r ''job_id'' = field j ''id'') (lock_rows db d)"

definition running :: "row \<Rightarrow> bool" where
  "running j = (field j ''status'' = SqlText ''running'')"

text \<open>
  The dataset a job's payload declares: its \<open>dataset_id\<close> field, the one field of the
  payload the orchestrator looks up.
\<close>

definition dataset_of :: "row \<Rightarrow> string option" where
  "dataset_of j =
     (case field j ''payload'' of
        SqlJsonb p \<Rightarrow> (case get_member p ''dataset_id'' of JStr d \<Rightarrow> Some d | _ \<Rightarrow> None)
      | _ \<Rightarrow> None)"

definition running_on :: "database \<Rightarrow> string \<Rightarrow> row list" where
  "running_on db d = filter (\<lambda>j. running j \<and> dataset_of j = Some d) (db ''jobs'')"

section \<open>Submitting and claiming a job\<close>

text \<open>
  Modelled from the spec: the Store's \<open>insert_job\<close> behind \<open>POST /training/jobs\<close>,
  which is not under src/. Section 6 gives the body \<open>{kind, queue?, priority?, payload}\<close>;
  the statement names the columns the body has, under a fresh id, and leaves every other
  column to the schema.
\<close>

record job_request =
  request_kind :: string
  request_queue :: "string option"
  request_priority :: "int option"
  request_payload :: jsval

definition insert_job :: "128 word \<Rightarrow> job_request \<Rightarrow> (string \<times> sqlval) list" where
  "insert_job uuid b =
     [(''id'', SqlUuid uuid), (''kind'', SqlText (request_kind b)),
      (''payload'', SqlJsonb (request_payload b))]
     @ (case request_queue b of None \<Rightarrow> [] | Some q \<Rightarrow> [(''queue'', SqlText q)])
     @ (case request_priority b of None \<Rightarrow> [] | Some n \<Rightarrow> [(''priority'', SqlInt n)])"

text \<open>
  A body whose fields the columns of jobs hold: text without zero bytes, a priority of
  32 bits, a payload that is JSON.
\<close>

definition storable :: "job_request \<Rightarrow> bool" where
  "storable b =
     (valid_text (request_kind b)
      \<and> (case request_queue b of None \<Rightarrow> True | Some q \<Rightarrow> valid_text q)
      \<and> (case request_priority b of
            None \<Rightarrow> True
          | Some n \<Rightarrow> - 2147483648 \<le> n \<and> n \<le> 2147483647)
      \<and> is_json (request_payload b))"

text \<open>
  Modelled from the spec: the error kinds of the API and their status codes (sections 6
  and 7).
\<close>

datatype api_error = Validation | NotFound | Conflict | Internal

fun status_code :: "api_error \<Rightarrow> nat" where
  "status_code Validation = 400"
| "status_code NotFound = 404"
| "status_code Conflict = 409"
| "status_code Internal = 500"

text \<open>
  Modelled from the spec: \<open>POST /training/jobs\<close>, the submit of the Lifecycle
  Controller, which is not under src/. Section 4.5: submit has no precondition and
  leaves the job pending with attempts 0; section 6: the submit succeeds whoever holds the
  lock of the dataset the payload declares. It inserts the job and reads no lock. A row
  the table refuses is bad input, a taken id an internal error. (The event log is left
  out.)
\<close>

definition post_job ::
  "(sqlval \<Rightarrow> string) \<Rightarrow> int \<Rightarrow> 128 word \<Rightarrow> database \<Rightarrow> job_request \<Rightarrow> api_error + database" where
  "post_job to_text now uuid db b =
     (case insert_into to_text now db ''jobs'' (insert_job uuid b) of
        Inr db' \<Rightarrow> Inr db'
      | Inl (unique_violation t) \<Rightarrow> Inl Internal
      | Inl e \<Rightarrow> Inl Validation)"

text \<open>
  Modelled from the spec: the grant rule of the Dataset Lock Manager (section 4.3). The
  lock of a dataset is granted to a job when the dataset has no row, or its row is
  expired, or its row belongs to the job. A row is expired when its lease_until is before
  now (section 4.6, step 2).
\<close>

definition lock_expired :: "int \<Rightarrow> row \<Rightarrow> bool" where
  "lock_expired now r =
     (case field r ''lease_until'' of SqlTimestamp t \<Rightarrow> t < now | _ \<Rightarrow> False)"

definition grantable :: "int \<Rightarrow> database \<Rightarrow> string \<Rightarrow> sqlval \<Rightarrow> bool" where
  "grantable now db d job =
     list_all (\<lambda>r. lock_expired now r \<or> field r ''job_id'' = job) (lock_rows db d)"

text \<open>\<open>UPDATE ... SET n = v\<close> on one row.\<close>

definition set_field :: "row \<Rightarrow> string \<Rightarrow> sqlval \<Rightarrow> row" where
  "set_field r n v = map (\<lambda>(k, w). if k = n then (k, v) else (k, w)) r"

text \<open>
  Modelled from the spec: the claim of one job by a worker (section 4.4, step 4, and the
  claim row of section 4.5), which is not under src/. The job must be pending. When its
  payload declares a dataset the lock is tried first: refused, the claim is a Conflict
  (section 6: 409 at claim time) and nothing changes; granted, the lock row of the
  dataset becomes the job's, with the job's lease and a grace. Then the job is running,
  with one more attempt, under the lease of the worker.
\<close>

definition claim_job ::
  "int \<Rightarrow> int \<Rightarrow> int \<Rightarrow> string \<Rightarrow> database \<Rightarrow> sqlval \<Rightarrow> api_error + database" where
  "claim_job now lease grace worker db job =
     (case find (\<lambda>j. field j ''id'' = job) (db ''jobs'') of
        None \<Rightarrow> Inl NotFound
      | Some j \<Rightarrow>
          if field j ''status'' \<noteq> SqlText ''pending'' then Inl Conflict
          else if (case dataset_of j of None \<Rightarrow> False | Some d \<Rightarrow> \<not> grantable now db d job)
          then Inl Conflict
          else
            let started = (\<lambda>r. set_field (set_field (set_field (set_field r
                              ''status'' (SqlText ''running''))
                              ''attempts'' (case field r ''attempts'' of
                                              SqlInt n \<Rightarrow> SqlInt (n + 1)
                                            | v \<Rightarrow> v))
                              ''lease_owner'' (SqlText worker))
                              ''lease_until'' (SqlTimestamp (now + lease)));
                jobs = map (\<lambda>r. if field r ''id'' = job then started r else r) (db ''jobs'')
            in (case dataset_of j of
                  None \<Rightarrow> Inr (db(''jobs'' := jobs))
                | Some d \<Rightarrow>
                    Inr (db(''jobs'' := jobs,
                            ''dataset_locks'' :=
                              filter (\<lambda>r. field r ''dataset_id'' \<noteq> SqlText d)
                                     (db ''dataset_locks'')
                              @ [[(''dataset_id'', SqlText d), (''job_id'', job),
                                  (''lease_until'', SqlTimestamp (now + lease + grace))]]))))"

section \<open>Properties of the operator UI\<close>

text \<open>
  Claim C6. For every job the UI renders, in the job table and in the job drawer alike,
  Cancel is enabled exactly when the job's status is pending or running, and Retry
  exactly when it is failed or cancelled: the preconditions of the lifecycle operations
  cancel and retry. Every job that is not null or undefined gets its buttons in the
  table, and every truthy job in the drawer.
\<close>

theorem cancel_retry_buttons:
  "(\<not> nullish j \<longrightarrow> (\<exists>a. table_row_actions j = Inr a))
   \<and> (table_row_actions j = Inr a \<longrightarrow>
        (\<not> cancel_disabled a \<longleftrightarrow> (\<exists>s. get_member j ''status'' = JStr s \<and> spec_cancel_precondition s))
      \<and> (\<not> retry_disabled a \<longleftrightarrow> (\<exists>s. get_member j ''status'' = JStr s \<and> spec_retry_precondition s)))
   \<and> (truthy j \<longrightarrow> (\<exists>b. drawer_actions j = Some b))
   \<and> (drawer_actions j = Some b \<longrightarrow>
        (\<not> cancel_disabled b \<longleftrightarrow> (\<exists>s. get_member j ''status'' = JStr s \<and> spec_cancel_precondition s))
      \<and> (\<not> retry_disabled b \<longleftrightarrow> (\<exists>s. get_member j ''status'' = JStr s \<and> spec_retry_precondition s)))"
proof -
  have t1: "\<not> nullish j \<longrightarrow> (\<exists>a. table_row_actions j = Inr a)"
    by (simp add: table_row_actions_def get_prop_def)
  have t2: "table_row_actions j = Inr a \<longrightarrow>
        (\<not> cancel_disabled a \<longleftrightarrow> (\<exists>s. get_member j ''status'' = JStr s \<and> spec_cancel_precondition s))
      \<and> (\<not> retry_disabled a \<longleftrightarrow> (\<exists>s. get_member j ''status'' = JStr s \<and> spec_retry_precondition s))"
    by (auto simp: table_row_actions_def get_prop_def spec_cancel_precondition_def
          spec_retry_precondition_def split: if_splits)
  have d1: "truthy j \<longrightarrow> (\<exists>b. drawer_actions j = Some b)"
    by (simp add: drawer_actions_def)
  have d2: "drawer_actions j = Some b \<longrightarrow>
        (\<not> cancel_disabled b \<longleftrightarrow> (\<exists>s. get_member j ''status'' = JStr s \<and> spec_cancel_precondition s))
      \<and> (\<not> retry_disabled b \<longleftrightarrow> (\<exists>s. get_member j ''status'' = JStr s \<and> spec_retry_precondition s))"
    by (auto simp: drawer_actions_def spec_cancel_precondition_def spec_retry_precondition_def
          split: if_splits)
  from t1 t2 d1 d2 show ?thesis by blast
qed

theorem cancel_retry_buttons_witness:
  "table_row_actions (JObj [(''id'', JStr ''j1''), (''status'', JStr ''running'')])
     = Inr \<lparr> cancel_disabled = False, retry_disabled = True \<rparr>
   \<and> drawer_actions (JObj [(''id'', JStr ''j1''), (''status'', JStr ''failed'')])
     = Some \<lparr> cancel_disabled = True, retry_disabled = False \<rparr>
   \<and> spec_cancel_precondition ''running'' \<and> spec_retry_precondition ''failed''"
  using cancel_retry_buttons
    [of "JObj [(''id'', JStr ''j1''), (''status'', JStr ''running'')]"
        "\<lparr> cancel_disabled = False, retry_disabled = True \<rparr>"
        "\<lparr> cancel_disabled = True, retry_disabled = False \<rparr>"]
    cancel_retry_buttons
    [of "JObj [(''id'', JStr ''j1''), (''status'', JStr ''failed'')]"
        "\<lparr> cancel_disabled = False, retry_disabled = True \<rparr>"
        "\<lparr> cancel_disabled = True, retry_disabled = False \<rparr>"]
  by (simp add: table_row_actions_def drawer_actions_def get_prop_def
        spec_cancel_precondition_def spec_retry_precondition_def)

text \<open>
  Claim C7. Whatever the list of jobs \<open>A\<close>, the table derives the rows \<open>A\<close> from the
  bare array \<open>A\<close> and from the wrapper \<open>{jobs: A}\<close> (with or without further
  fields), and no rows from a response that is neither an array nor an object with a
  \<open>jobs\<close> field.
\<close>

theorem rows_of_both_shapes:
  "rows (JArr A) = JArr A
   \<and> rows (JObj [(''jobs'', JArr A)]) = rows (JArr A)
   \<and> (map_of fs ''jobs'' = Some (JArr A) \<longrightarrow> rows (JObj fs) = JArr A)
   \<and> (\<not> isArray d \<and> \<not> has_jobs_field d \<longrightarrow> rows d = JArr [])"
proof -
  have bare: "rows (JArr A) = JArr A"
    by (simp add: rows_def)
  have wrapped: "map_of fs ''jobs'' = Some (JArr A) \<longrightarrow> rows (JObj fs) = JArr A" for fs
    by (simp add: rows_def opt_prop_def coalesce_def)
  have neither: "\<not> isArray d \<and> \<not> has_jobs_field d \<longrightarrow> rows d = JArr []"
  proof (cases d)
    case (JObj gs)
    show ?thesis
    proof
      assume "\<not> isArray d \<and> \<not> has_jobs_field d"
      with JObj have "map_of gs ''jobs'' = None"
        by (simp add: map_of_eq_None_iff)
      with JObj show "rows d = JArr []"
        by (simp add: rows_def opt_prop_def coalesce_def)
    qed
  qed (simp_all add: rows_def opt_prop_def coalesce_def)
  from bare wrapped [of "[(''jobs'', JArr A)]"] wrapped [of fs] neither
  show ?thesis by simp
qed

theorem rows_of_both_shapes_witness:
  "rows (JObj [(''total'', JNum (Fin 1)), (''jobs'', JArr [JObj [(''id'', JStr ''j1'')]])])
     = JArr [JObj [(''id'', JStr ''j1'')]]
   \<and> rows (JStr ''not json'') = JArr [] \<and> rows JNull = JArr []"
  using rows_of_both_shapes
    [of "[JObj [(''id'', JStr ''j1'')]]"
        "[(''total'', JNum (Fin 1)), (''jobs'', JArr [JObj [(''id'', JStr ''j1'')]])]"
        "JStr ''not json''"]
    rows_of_both_shapes [of "[]" "[]" JNull]
  by simp

section \<open>Properties of the REST client and of the dialog\<close>

lemma js_includes_iff: "js_includes s sub \<longleftrightarrow> (\<exists>ps ss. s = ps @ sub @ ss)"
proof (induction s)
  case Nil
  show ?case by auto
next
  case (Cons c cs)
  have "js_includes (c # cs) sub \<longleftrightarrow> prefix sub (c # cs) \<or> sublist sub cs"
    using Cons.IH by (simp add: sublist_def)
  also have "\<dots> \<longleftrightarrow> sublist sub (c # cs)"
    by (simp add: sublist_Cons_right)
  finally show ?case
    by (simp add: sublist_def)
qed

lemma digit_value: "d < 10 \<Longrightarrow> of_char (digit d) = 48 + d"
proof -
  assume "d < 10"
  then have "d = 0 \<or> d = 1 \<or> d = 2 \<or> d = 3 \<or> d = 4 \<or> d = 5 \<or> d = 6 \<or> d = 7 \<or> d = 8 \<or> d = 9"
    by arith
  then show ?thesis
    by (auto simp: digit_def)
qed

lemma show_nat_decimal:
  "foldl (\<lambda>a c. 10 * a + (of_char c - 48)) 0 (show_nat n) = n"
proof (induction n rule: show_nat.induct)
  case (1 n)
  show ?case
  proof (cases "n < 10")
    case True
    then show ?thesis
      by (subst show_nat.simps) (simp add: digit_value)
  next
    case False
    have "n mod 10 < 10" by simp
    then have last: "of_char (digit (n mod 10)) = 48 + n mod 10"
      by (rule digit_value)
    from False 1 have "foldl (\<lambda>a c. 10 * a + (of_char c - 48)) 0 (show_nat (n div 10)) = n div 10"
      by simp
    with False last show ?thesis
      by (subst show_nat.simps) simp
  qed
qed

text \<open>
  Claim C9. \<open>http\<close> returns normally only for a response whose status is ok (200 to
  299). For every response that is not ok it throws an Error whose message begins with
  the status code in decimal. For an ok response it returns the parsed JSON body when
  the content-type header contains \<open>application/json\<close> (and the body parses), and
  the raw text of the body when the header does not contain it or is missing; and it
  returns a parsed value only in the first case, a raw text only in the second.
\<close>

theorem http_contract:
  "(http parse fetch env path os = Inr v \<longrightarrow>
      (\<exists>res. fetch (http_request env path os) = Inr res
         \<and> 200 \<le> status res \<and> status res \<le> 299))
   \<and> (fetch (http_request env path os) = Inr r \<and> \<not> (200 \<le> status r \<and> status r \<le> 299) \<longrightarrow>
        (\<exists>msg. http parse fetch env path os = Inl (Error msg)
           \<and> prefix (show_nat (status r)) msg
           \<and> msg = show_nat (status r) @ '' '' @ statusText r
                 @ (case body r of
                      None \<Rightarrow> []
                    | Some t \<Rightarrow> if t = [] then [] else '': '' @ t))
      \<and> foldl (\<lambda>a c. 10 * a + (of_char c - 48)) 0 (show_nat (status r)) = status r)
   \<and> (fetch (http_request env path os) = Inr r \<and> 200 \<le> status r \<and> status r \<le> 299
        \<and> content_type r = Some c \<and> (\<exists>ps ss. c = ps @ ''application/json'' @ ss)
        \<and> body r = Some t \<and> parse t = Some w \<longrightarrow>
        http parse fetch env path os = Inr (Parsed w))
   \<and> (fetch (http_request env path os) = Inr r \<and> 200 \<le> status r \<and> status r \<le> 299
        \<and> (content_type r = None
            \<or> (content_type r = Some c \<and> \<not> (\<exists>ps ss. c = ps @ ''application/json'' @ ss)))
        \<and> body r = Some t \<longrightarrow>
        http parse fetch env path os = Inr (Raw t))
   \<and> (http parse fetch env path os = Inr (Parsed w) \<longrightarrow>
        (\<exists>res h t. fetch (http_request env path os) = Inr res \<and> content_type res = Some h
           \<and> (\<exists>ps ss. h = ps @ ''application/json'' @ ss)
           \<and> body res = Some t \<and> parse t = Some w))
   \<and> (http parse fetch env path os = Inr (Raw t) \<longrightarrow>
        (\<exists>res. fetch (http_request env path os) = Inr res \<and> body res = Some t
           \<and> (content_type res = None
               \<or> (\<exists>h. content_type res = Some h
                     \<and> \<not> (\<exists>ps ss. h = ps @ ''application/json'' @ ss)))))"
proof -
  have ct_json: "js_includes (ct res) ''application/json''
      \<longleftrightarrow> (\<exists>h. content_type res = Some h \<and> (\<exists>ps ss. h = ps @ ''application/json'' @ ss))" for res
    by (cases "content_type res") (auto simp: ct_def js_includes_iff)
  have only_ok: "http parse fetch env path os = Inr v \<longrightarrow>
      (\<exists>res. fetch (http_request env path os) = Inr res
         \<and> 200 \<le> status res \<and> status res \<le> 299)"
    by (cases "fetch (http_request env path os)")
       (auto simp: http_def ok_def split: if_splits)
  have throws: "fetch (http_request env path os) = Inr r \<and> \<not> (200 \<le> status r \<and> status r \<le> 299) \<longrightarrow>
        (\<exists>msg. http parse fetch env path os = Inl (Error msg)
           \<and> prefix (show_nat (status r)) msg
           \<and> msg = show_nat (status r) @ '' '' @ statusText r
                 @ (case body r of
                      None \<Rightarrow> []
                    | Some t \<Rightarrow> if t = [] then [] else '': '' @ t))
      \<and> foldl (\<lambda>a c. 10 * a + (of_char c - 48)) 0 (show_nat (status r)) = status r"
    by (cases "body r") (auto simp: http_def ok_def text_or_empty_def show_nat_decimal)
  have json: "fetch (http_request env path os) = Inr r \<and> 200 \<le> status r \<and> status r \<le> 299
        \<and> content_type r = Some c \<and> (\<exists>ps ss. c = ps @ ''application/json'' @ ss)
        \<and> body r = Some t \<and> parse t = Some w \<longrightarrow>
        http parse fetch env path os = Inr (Parsed w)"
  proof
    assume a: "fetch (http_request env path os) = Inr r \<and> 200 \<le> status r \<and> status r \<le> 299
        \<and> content_type r = Some c \<and> (\<exists>ps ss. c = ps @ ''application/json'' @ ss)
        \<and> body r = Some t \<and> parse t = Some w"
    then have "js_includes (ct r) ''application/json''"
      by (simp add: ct_json)
    with a show "http parse fetch env path os = Inr (Parsed w)"
      by (simp add: http_def ok_def)
  qed
  have raw: "fetch (http_request env path os) = Inr r \<and> 200 \<le> status r \<and> status r \<le> 299
        \<and> (content_type r = None
            \<or> (content_type r = Some c \<and> \<not> (\<exists>ps ss. c = ps @ ''application/json'' @ ss)))
        \<and> body r = Some t \<longrightarrow>
        http parse fetch env path os = Inr (Raw t)"
  proof
    assume a: "fetch (http_request env path os) = Inr r \<and> 200 \<le> status r \<and> status r \<le> 299
        \<and> (content_type r = None
            \<or> (content_type r = Some c \<and> \<not> (\<exists>ps ss. c = ps @ ''application/json'' @ ss)))
        \<and> body r = Some t"
    then have "\<not> js_includes (ct r) ''application/json''"
      unfolding ct_json by auto
    with a show "http parse fetch env path os = Inr (Raw t)"
      by (simp add: http_def ok_def)
  qed
  have parsed_only: "http parse fetch env path os = Inr (Parsed w) \<longrightarrow>
        (\<exists>res h t. fetch (http_request env path os) = Inr res \<and> content_type res = Some h
           \<and> (\<exists>ps ss. h = ps @ ''application/json'' @ ss)
           \<and> body res = Some t \<and> parse t = Some w)"
  proof
    assume ret: "http parse fetch env path os = Inr (Parsed w)"
    then obtain res where res: "fetch (http_request env path os) = Inr res"
      by (cases "fetch (http_request env path os)") (simp_all add: http_def)
    from ret res have inc: "js_includes (ct res) ''application/json''"
      by (auto simp: http_def split: if_splits option.splits)
    with ret res obtain t where "body res = Some t" "parse t = Some w"
      by (auto simp: http_def split: if_splits option.splits)
    with res inc show "\<exists>res h t. fetch (http_request env path os) = Inr res
           \<and> content_type res = Some h
           \<and> (\<exists>ps ss. h = ps @ ''application/json'' @ ss)
           \<and> body res = Some t \<and> parse t = Some w"
      unfolding ct_json by blast
  qed
  have raw_only: "http parse fetch env path os = Inr (Raw t) \<longrightarrow>
        (\<exists>res. fetch (http_request env path os) = Inr res \<and> body res = Some t
           \<and> (content_type res = None
               \<or> (\<exists>h. content_type res = Some h
                     \<and> \<not> (\<exists>ps ss. h = ps @ ''application/json'' @ ss))))"
  proof
    assume ret: "http parse fetch env path os = Inr (Raw t)"
    then obtain res where res: "fetch (http_request env path os) = Inr res"
      by (cases "fetch (http_request env path os)") (simp_all add: http_def)
    from ret res have inc: "\<not> js_includes (ct res) ''application/json''"
      by (auto simp: http_def split: if_splits option.splits)
    with ret res have "body res = Some t"
      by (auto simp: http_def split: if_splits option.splits)
    with res inc show "\<exists>res. fetch (http_request env path os) = Inr res \<and> body res = Some t
           \<and> (content_type res = None
               \<or> (\<exists>h. content_type res = Some h
                     \<and> \<not> (\<exists>ps ss. h = ps @ ''application/json'' @ ss)))"
      unfolding ct_json by (cases "content_type res") auto
  qed
  from only_ok throws json raw parsed_only raw_only show ?thesis by blast
qed

theorem http_contract_witness:
  "http (\<lambda>t. if t = ''[]'' then Some (JArr []) else None)
        (\<lambda>rq. Inr \<lparr> status = 200, statusText = ''OK'',
                     content_type = Some ''application/json; charset=utf-8'',
                     body = Some ''[]'' \<rparr>)
        None ''/training/jobs'' \<lparr> opt_headers = None, opt_method = None, opt_body = None \<rparr>
     = Inr (Parsed (JArr []))
   \<and> http (\<lambda>t. None)
        (\<lambda>rq. Inr \<lparr> status = 200, statusText = ''OK'', content_type = Some ''text/plain'',
                     body = Some ''done'' \<rparr>)
        None ''/training/jobs'' \<lparr> opt_headers = None, opt_method = None, opt_body = None \<rparr>
     = Inr (Raw ''done'')
   \<and> http (\<lambda>t. None)
        (\<lambda>rq. Inr \<lparr> status = 409, statusText = ''Conflict'', content_type = None,
                     body = Some ''busy'' \<rparr>)
        None ''/training/jobs'' \<lparr> opt_headers = None, opt_method = None, opt_body = None \<rparr>
     = Inl (Error ''409 Conflict: busy'')
   \<and> prefix (show_nat 409) ''409 Conflict: busy''"
proof -
  let ?os = "\<lparr> opt_headers = None, opt_method = None, opt_body = None \<rparr>"
  let ?json = "\<lparr> status = 200, statusText = ''OK'',
                     content_type = Some ''application/json; charset=utf-8'',
                     body = Some ''[]'' \<rparr>"
  let ?plain = "\<lparr> status = 200, statusText = ''OK'', content_type = Some ''text/plain'',
                     body = Some ''done'' \<rparr>"
  let ?busy = "\<lparr> status = 409, statusText = ''Conflict'', content_type = None,
                     body = Some ''busy'' \<rparr>"
  let ?parse = "\<lambda>t. if t = ''[]'' then Some (JArr []) else None"
  have digits: "show_nat 409 = ''409''"
    by (simp add: show_nat.simps digit_def)
  have "js_includes ''application/json; charset=utf-8'' ''application/json''"
    by simp
  then have present: "\<exists>ps ss. ''application/json; charset=utf-8'' = ps @ ''application/json'' @ ss"
    unfolding js_includes_iff .
  have "\<not> js_includes ''text/plain'' ''application/json''"
    by simp
  then have absent: "\<not> (\<exists>ps ss. ''text/plain'' = ps @ ''application/json'' @ ss)"
    unfolding js_includes_iff .
  have good: "http ?parse (\<lambda>rq. Inr ?json) None ''/training/jobs'' ?os = Inr (Parsed (JArr []))"
  proof (rule mp [OF http_contract
      [of ?parse "\<lambda>rq. Inr ?json" None "''/training/jobs''" ?os _ ?json
          "''application/json; charset=utf-8''" "''[]''" "JArr []",
       THEN conjunct2, THEN conjunct2, THEN conjunct1]])
    show "(\<lambda>rq. Inr ?json) (http_request None ''/training/jobs'' ?os) = Inr ?json
        \<and> 200 \<le> status ?json \<and> status ?json \<le> 299
        \<and> content_type ?json = Some ''application/json; charset=utf-8''
        \<and> (\<exists>ps ss. ''application/json; charset=utf-8'' = ps @ ''application/json'' @ ss)
        \<and> body ?json = Some ''[]'' \<and> ?parse ''[]'' = Some (JArr [])"
      by (intro conjI present) simp_all
  qed
  have plain: "http (\<lambda>t. None) (\<lambda>rq. Inr ?plain) None ''/training/jobs'' ?os = Inr (Raw ''done'')"
  proof (rule mp [OF http_contract
      [of "\<lambda>t. None" "\<lambda>rq. Inr ?plain" None "''/training/jobs''" ?os _ ?plain
          "''text/plain''" "''done''",
       THEN conjunct2, THEN conjunct2, THEN conjunct2, THEN conjunct1]])
    show "(\<lambda>rq. Inr ?plain) (http_request None ''/training/jobs'' ?os) = Inr ?plain
        \<and> 200 \<le> status ?plain \<and> status ?plain \<le> 299
        \<and> (content_type ?plain = None
            \<or> (content_type ?plain = Some ''text/plain''
                \<and> \<not> (\<exists>ps ss. ''text/plain'' = ps @ ''application/json'' @ ss)))
        \<and> body ?plain = Some ''done''"
      by (intro conjI disjI2 absent) simp_all
  qed
  from http_contract
    [of "\<lambda>t. None" "\<lambda>rq. Inr ?busy" None "''/training/jobs''" ?os _ ?busy]
  have bad: "http (\<lambda>t. None) (\<lambda>rq. Inr ?busy) None ''/training/jobs'' ?os
      = Inl (Error ''409 Conflict: busy'')"
    by (simp add: digits)
  from bad good plain digits show ?thesis by simp
qed

lemma js_trim_ends:
  assumes "js_trim s \<noteq> []"
  shows "\<not> js_whitespace (hd (js_trim s)) \<and> \<not> js_whitespace (last (js_trim s))"
proof -
  let ?a = "dropWhile js_whitespace s"
  let ?b = "dropWhile js_whitespace (rev ?a)"
  from assms have b: "?b \<noteq> []"
    by (simp add: js_trim_def)
  then have "rev ?a \<noteq> []"
    by (metis dropWhile.simps(1))
  then have a: "?a \<noteq> []"
    by (simp del: dropWhile_eq_Nil_conv)
  from b have last_ok: "\<not> js_whitespace (hd ?b)"
    by (rule hd_dropWhile)
  from a have "\<not> js_whitespace (hd ?a)"
    by (rule hd_dropWhile)
  moreover from a have "last (rev ?a) = hd ?a"
    by (simp add: last_rev)
  ultimately have "\<not> js_whitespace (last (rev ?a))"
    by simp
  then have keep: "rev ?a = takeWhile js_whitespace (rev ?a) @ ?b \<and> last ?b = last (rev ?a)"
    using b by (metis last_appendR takeWhile_dropWhile_id)
  have "hd (js_trim s) = last ?b"
    using b by (simp add: js_trim_def hd_rev)
  moreover have "last (js_trim s) = hd ?b"
    using b by (simp add: js_trim_def last_rev)
  moreover have "last ?b = hd ?a"
    using keep a by (simp add: last_rev)
  ultimately show ?thesis
    using last_ok \<open>\<not> js_whitespace (hd ?a)\<close> by simp
qed

lemma or_zero_not_NaN: "or_zero n \<noteq> NaN"
  by (cases n) (simp_all add: or_zero_def)

lemma or_zero_of_NaN: "or_zero NaN = Fin 0"
  by (simp add: or_zero_def)

text \<open>
  Claim C10. The dialog never posts a malformed job. \<open>submit\<close> calls
  \<open>api.postJob\<close> only when the payload text parses as JSON, and otherwise sets the
  error message and returns without posting. The body it posts carries the trimmed kind
  and queue, the parsed payload and a priority that is a number other than NaN, 0 standing
  in for an input that is not numeric. The Create Job button is disabled unless
  \<open>canSubmit\<close> holds, so the kind and the queue of a posted body are not empty
  and neither starts nor ends with white space.
\<close>

theorem submit_posts_well_formed:
  "(posted (submit parse to_number postJob m) = Some job \<longrightarrow>
      parse (payloadText m) = Some (job_payload job)
      \<and> job_kind job = js_trim (kind m) \<and> job_queue job = js_trim (queue m)
      \<and> job_priority job \<noteq> NaN
      \<and> (Number to_number (priority m) = NaN \<longrightarrow> job_priority job = Fin 0))
   \<and> (parse (payloadText m) = None \<longrightarrow>
        posted (submit parse to_number postJob m) = None
        \<and> err (after (submit parse to_number postJob m)) = ''Payload must be valid JSON.'')
   \<and> (posted (create_clicked parse to_number postJob m) = Some job \<longrightarrow>
        posted (submit parse to_number postJob m) = Some job
        \<and> job_kind job \<noteq> [] \<and> job_queue job \<noteq> []
        \<and> \<not> js_whitespace (hd (job_kind job)) \<and> \<not> js_whitespace (last (job_kind job))
        \<and> \<not> js_whitespace (hd (job_queue job)) \<and> \<not> js_whitespace (last (job_queue job)))"
proof -
  have sub: "posted (submit parse to_number postJob m) = Some job \<longrightarrow>
      parse (payloadText m) = Some (job_payload job)
      \<and> job_kind job = js_trim (kind m) \<and> job_queue job = js_trim (queue m)
      \<and> job_priority job \<noteq> NaN
      \<and> (Number to_number (priority m) = NaN \<longrightarrow> job_priority job = Fin 0)"
    by (auto simp: submit_def safeParseJson_def Let_def or_zero_not_NaN or_zero_of_NaN
          split: option.splits sum.splits)
  have bad: "parse (payloadText m) = None \<longrightarrow>
        posted (submit parse to_number postJob m) = None
        \<and> err (after (submit parse to_number postJob m)) = ''Payload must be valid JSON.''"
    by (simp add: submit_def safeParseJson_def)
  have click: "posted (create_clicked parse to_number postJob m) = Some job \<longrightarrow>
        posted (submit parse to_number postJob m) = Some job
        \<and> job_kind job \<noteq> [] \<and> job_queue job \<noteq> []
        \<and> \<not> js_whitespace (hd (job_kind job)) \<and> \<not> js_whitespace (last (job_kind job))
        \<and> \<not> js_whitespace (hd (job_queue job)) \<and> \<not> js_whitespace (last (job_queue job))"
  proof
    assume p: "posted (create_clicked parse to_number postJob m) = Some job"
    then have can: "canSubmit parse m"
      by (simp add: create_clicked_def split: if_splits)
    with p have s: "posted (submit parse to_number postJob m) = Some job"
      by (simp add: create_clicked_def)
    with sub have eqs: "job_kind job = js_trim (kind m)" "job_queue job = js_trim (queue m)"
      by simp_all
    from can have ne: "js_trim (kind m) \<noteq> []" "js_trim (queue m) \<noteq> []"
      by (simp_all add: canSubmit_def)
    from ne js_trim_ends [of "kind m"] js_trim_ends [of "queue m"] eqs s
    show "posted (submit parse to_number postJob m) = Some job
        \<and> job_kind job \<noteq> [] \<and> job_queue job \<noteq> []
        \<and> \<not> js_whitespace (hd (job_kind job)) \<and> \<not> js_whitespace (last (job_kind job))
        \<and> \<not> js_whitespace (hd (job_queue job)) \<and> \<not> js_whitespace (last (job_queue job))"
      by simp
  qed
  from sub bad click show ?thesis by blast
qed

theorem submit_posts_well_formed_witness:
  "posted (create_clicked (\<lambda>t. if t = [0x7B, 0x7D] then Some (JObj []) else None)
             (\<lambda>t. NaN) (\<lambda>j. Inr (Raw []))
             \<lparr> kind = [0x20, 0x74, 0x20], queue = [0x71], priority = PText [0x78],
               payloadText = [0x7B, 0x7D], submitting = False, err = [] \<rparr>)
     = Some \<lparr> job_kind = [0x74], job_queue = [0x71], job_priority = Fin 0,
              job_payload = JObj [] \<rparr>
   \<and> posted (submit (\<lambda>t. None) (\<lambda>t. NaN) (\<lambda>j. Inr (Raw []))
             \<lparr> kind = [0x74], queue = [0x71], priority = PNum (Fin 0),
               payloadText = [0x7B], submitting = False, err = [] \<rparr>) = None"
proof -
  let ?parse = "\<lambda>t::ustring. if t = [0x7B, 0x7D] then Some (JObj []) else None"
  let ?m = "\<lparr> kind = [0x20, 0x74, 0x20], queue = [0x71], priority = PText [0x78],
               payloadText = [0x7B, 0x7D], submitting = False, err = [] \<rparr> :: modal"
  let ?job = "\<lparr> job_kind = [0x74], job_queue = [0x71], job_priority = Fin 0,
              job_payload = JObj [] \<rparr>"
  let ?m2 = "\<lparr> kind = [0x74], queue = [0x71], priority = PNum (Fin 0),
               payloadText = [0x7B], submitting = False, err = [] \<rparr> :: modal"
  have ws: "js_whitespace 0x20" "\<not> js_whitespace 0x74" "\<not> js_whitespace 0x71"
    by (simp_all add: js_whitespace_def)
  have trims: "js_trim [0x20, 0x74, 0x20] = [0x74]" "js_trim [0x71] = [0x71]"
    by (simp_all add: js_trim_def ws)
  have click: "posted (create_clicked ?parse (\<lambda>t. NaN) (\<lambda>j. Inr (Raw [])) ?m) = Some ?job"
    by (simp add: create_clicked_def canSubmit_def submit_def safeParseJson_def trims
          Number_def or_zero_def)
  from submit_posts_well_formed [of "\<lambda>t. None" "\<lambda>t. NaN" "\<lambda>j. Inr (Raw [])" ?m2 ?job]
  have "posted (submit (\<lambda>t. None) (\<lambda>t. NaN) (\<lambda>j. Inr (Raw [])) ?m2) = None"
    by simp
  with click show ?thesis by simp
qed

section \<open>Properties of the schema\<close>

lemma jobs_columns:
  "table_columns ''jobs'' =
     [pk ''id'' UUID,
      col ''kind'' TEXT True None,
      col ''status'' TEXT True (Some (Literal (SqlText ''pending''))),
      col ''payload'' JSONB True (Some (Literal (SqlJsonb (JObj [])))),
      col ''error'' TEXT False None,
      col ''created_at'' TIMESTAMPTZ True (Some NOW),
      col ''updated_at'' TIMESTAMPTZ True (Some NOW),
      col ''lease_owner'' TEXT False None,
      col ''lease_until'' TIMESTAMPTZ False None,
      col ''attempts'' INTEGER True (Some (Literal (SqlInt 0))),
      col ''priority'' INTEGER True (Some (Literal (SqlInt 0))),
      col ''queue'' TEXT True (Some (Literal (SqlText ''default'')))]"
  by code_simp

lemma table_names_eq:
  "table_names = [''jobs'', ''job_events'', ''dataset_locks'', ''workers'', ''webhook_outbox'']"
  by code_simp

lemma build_field:
  "build f cs = Inr r \<Longrightarrow> find (\<lambda>c. col_name c = n) cs = Some c \<Longrightarrow> f c = Inr (field r n)"
proof (induction cs arbitrary: r)
  case Nil
  then show ?case by simp
next
  case (Cons a cs)
  from Cons.prems(1) obtain v r' where
    a: "f a = Inr v" and r': "build f cs = Inr r'" and r: "r = (col_name a, v) # r'"
    by (auto split: sum.splits)
  show ?case
  proof (cases "col_name a = n")
    case True
    with Cons.prems(2) a r show ?thesis by (simp add: field_def)
  next
    case False
    with Cons.prems(2) have "find (\<lambda>c. col_name c = n) cs = Some c" by simp
    with r' have "f c = Inr (field r' n)" by (rule Cons.IH)
    with False r show ?thesis by (simp add: field_def)
  qed
qed

lemma insert_row_field:
  "insert_row to_text now cs given = Inr r \<Longrightarrow> find (\<lambda>c. col_name c = n) cs = Some c
     \<Longrightarrow> stored to_text now given c = Inr (field r n)"
  by (auto simp: insert_row_def split: option.splits if_splits intro: build_field)

lemma insert_job_row:
  assumes "storable b" and "valid_timestamp now"
  shows "insert_row to_text now (table_columns ''jobs'') (insert_job uuid b)
     = Inr [(''id'', SqlUuid uuid), (''kind'', SqlText (request_kind b)),
            (''status'', SqlText ''pending''), (''payload'', SqlJsonb (request_payload b)),
            (''error'', SqlNull), (''created_at'', SqlTimestamp now),
            (''updated_at'', SqlTimestamp now), (''lease_owner'', SqlNull),
            (''lease_until'', SqlNull), (''attempts'', SqlInt 0),
            (''priority'', SqlInt (case request_priority b of None \<Rightarrow> 0 | Some n \<Rightarrow> n)),
            (''queue'', SqlText (case request_queue b of None \<Rightarrow> ''default'' | Some q \<Rightarrow> q))]"
  using assms unfolding insert_row_def jobs_columns
  by (cases "request_queue b"; cases "request_priority b")
     (simp_all add: insert_job_def storable_def stored_def assign_def col_def pk_def
        has_column_def default_value_def valid_text_def)

lemma job_defaults:
  assumes "insert_row to_text now (table_columns ''jobs'') given = Inr r"
  shows "map_of given ''status'' = None \<Longrightarrow> field r ''status'' = SqlText ''pending''"
    and "map_of given ''attempts'' = None \<Longrightarrow> field r ''attempts'' = SqlInt 0"
    and "map_of given ''queue'' = None \<Longrightarrow> field r ''queue'' = SqlText ''default''"
    and "map_of given ''queue'' = Some (SqlText name) \<Longrightarrow> field r ''queue'' = SqlText name"
proof -
  have status: "stored to_text now given (col ''status'' TEXT True (Some (Literal (SqlText ''pending''))))
      = Inr (field r ''status'')"
    by (rule insert_row_field [OF assms]) (simp add: jobs_columns col_def pk_def)
  have attempts: "stored to_text now given (col ''attempts'' INTEGER True (Some (Literal (SqlInt 0))))
      = Inr (field r ''attempts'')"
    by (rule insert_row_field [OF assms]) (simp add: jobs_columns col_def pk_def)
  have queue: "stored to_text now given (col ''queue'' TEXT True (Some (Literal (SqlText ''default''))))
      = Inr (field r ''queue'')"
    by (rule insert_row_field [OF assms]) (simp add: jobs_columns col_def pk_def)
  show "map_of given ''status'' = None \<Longrightarrow> field r ''status'' = SqlText ''pending''"
    using status by (simp add: stored_def assign_def col_def default_value_def valid_text_def)
  show "map_of given ''attempts'' = None \<Longrightarrow> field r ''attempts'' = SqlInt 0"
    using attempts by (simp add: stored_def assign_def col_def default_value_def)
  show "map_of given ''queue'' = None \<Longrightarrow> field r ''queue'' = SqlText ''default''"
    using queue by (simp add: stored_def assign_def col_def default_value_def valid_text_def)
  show "map_of given ''queue'' = Some (SqlText name) \<Longrightarrow> field r ''queue'' = SqlText name"
    using queue by (simp add: stored_def assign_def col_def split: if_splits)
qed

text \<open>
  Claim C5. The schema the migrations build has the indexes the specification asks for:
  on jobs, an index on (queue, status, priority DESC, created_at ASC) and an index whose
  leading columns are (status, lease_until); on webhook_outbox, a partial index on
  (next_attempt_at) for the rows where delivered_at IS NULL.
\<close>

theorem required_indexes:
  "map_option (\<lambda>i. (idx_table i, index_key i, idx_where i))
       (find_index ''idx_jobs_queue_status_priority_created'')
     = Some (''jobs'',
             [(''queue'', ASC), (''status'', ASC), (''priority'', DESC), (''created_at'', ASC)],
             None)
   \<and> map_option (\<lambda>i. (idx_table i, take 2 (index_key i), idx_where i))
       (find_index ''idx_jobs_claim'')
     = Some (''jobs'', [(''status'', ASC), (''lease_until'', ASC)], None)
   \<and> map_option (\<lambda>i. (idx_table i, index_key i, idx_where i))
       (find_index ''idx_webhook_outbox_due'')
     = Some (''webhook_outbox'', [(''next_attempt_at'', ASC)], Some (IS_NULL ''delivered_at''))"
  by code_simp

text \<open>
  Claim C8. A job row the database accepts starts with status pending and attempts 0
  whenever the INSERT leaves these columns to their defaults, and its queue is
  \<open>default\<close> when the INSERT names none (and the queue it names otherwise). The
  INSERT of a submitted body is such a statement: every row it gives has status pending,
  attempts 0 and the body's queue, or \<open>default\<close> when the body has none; and it gives
  a row for every body the columns can hold.
\<close>

theorem fresh_job_defaults:
  "(insert_row to_text now (table_columns ''jobs'') given = Inr r \<longrightarrow>
      (map_of given ''status'' = None \<longrightarrow> field r ''status'' = SqlText ''pending'')
    \<and> (map_of given ''attempts'' = None \<longrightarrow> field r ''attempts'' = SqlInt 0)
    \<and> (map_of given ''queue'' = None \<longrightarrow> field r ''queue'' = SqlText ''default'')
    \<and> (map_of given ''queue'' = Some (SqlText name) \<longrightarrow> field r ''queue'' = SqlText name))
   \<and> (insert_row to_text now (table_columns ''jobs'') (insert_job uuid b) = Inr j \<longrightarrow>
        field j ''status'' = SqlText ''pending''
      \<and> field j ''attempts'' = SqlInt 0
      \<and> field j ''queue''
          = SqlText (case request_queue b of None \<Rightarrow> ''default'' | Some q \<Rightarrow> q))
   \<and> (storable b \<and> valid_timestamp now \<longrightarrow>
        (\<exists>j. insert_row to_text now (table_columns ''jobs'') (insert_job uuid b) = Inr j))"
proof -
  have general: "insert_row to_text now (table_columns ''jobs'') given = Inr r \<longrightarrow>
      (map_of given ''status'' = None \<longrightarrow> field r ''status'' = SqlText ''pending'')
    \<and> (map_of given ''attempts'' = None \<longrightarrow> field r ''attempts'' = SqlInt 0)
    \<and> (map_of given ''queue'' = None \<longrightarrow> field r ''queue'' = SqlText ''default'')
    \<and> (map_of given ''queue'' = Some (SqlText name) \<longrightarrow> field r ''queue'' = SqlText name)"
  proof
    assume ins: "insert_row to_text now (table_columns ''jobs'') given = Inr r"
    from job_defaults(1) [OF ins] job_defaults(2) [OF ins] job_defaults(3) [OF ins]
      job_defaults(4) [OF ins, of name]
    show "(map_of given ''status'' = None \<longrightarrow> field r ''status'' = SqlText ''pending'')
    \<and> (map_of given ''attempts'' = None \<longrightarrow> field r ''attempts'' = SqlInt 0)
    \<and> (map_of given ''queue'' = None \<longrightarrow> field r ''queue'' = SqlText ''default'')
    \<and> (map_of given ''queue'' = Some (SqlText name) \<longrightarrow> field r ''queue'' = SqlText name)"
      by blast
  qed
  have submitted: "insert_row to_text now (table_columns ''jobs'') (insert_job uuid b) = Inr j \<longrightarrow>
        field j ''status'' = SqlText ''pending''
      \<and> field j ''attempts'' = SqlInt 0
      \<and> field j ''queue''
          = SqlText (case request_queue b of None \<Rightarrow> ''default'' | Some q \<Rightarrow> q)"
  proof
    assume ins: "insert_row to_text now (table_columns ''jobs'') (insert_job uuid b) = Inr j"
    have no_status: "map_of (insert_job uuid b) ''status'' = None"
      and no_attempts: "map_of (insert_job uuid b) ''attempts'' = None"
      by (simp_all add: insert_job_def split: option.splits)
    have queue: "field j ''queue''
          = SqlText (case request_queue b of None \<Rightarrow> ''default'' | Some q \<Rightarrow> q)"
    proof (cases "request_queue b")
      case None
      then have "map_of (insert_job uuid b) ''queue'' = None"
        by (simp add: insert_job_def split: option.splits)
      with None job_defaults(3) [OF ins] show ?thesis by simp
    next
      case (Some q)
      then have "map_of (insert_job uuid b) ''queue'' = Some (SqlText q)"
        by (simp add: insert_job_def)
      with Some job_defaults(4) [OF ins] show ?thesis by simp
    qed
    from job_defaults(1) [OF ins no_status] job_defaults(2) [OF ins no_attempts] queue
    show "field j ''status'' = SqlText ''pending''
      \<and> field j ''attempts'' = SqlInt 0
      \<and> field j ''queue''
          = SqlText (case request_queue b of None \<Rightarrow> ''default'' | Some q \<Rightarrow> q)"
      by simp
  qed
  have accepted: "storable b \<and> valid_timestamp now \<longrightarrow>
        (\<exists>j. insert_row to_text now (table_columns ''jobs'') (insert_job uuid b) = Inr j)"
    using insert_job_row [of b now to_text uuid] by blast
  from general submitted accepted show ?thesis by blast
qed

theorem fresh_job_defaults_witness:
  "insert_row (\<lambda>v. []) 5 (table_columns ''jobs'')
       (insert_job 0x11 \<lparr> request_kind = ''train.llm'', request_queue = None,
                          request_priority = None,
                          request_payload = JObj [(''dataset_id'', JStr ''D1'')] \<rparr>)
     = Inr [(''id'', SqlUuid 0x11), (''kind'', SqlText ''train.llm''),
            (''status'', SqlText ''pending''),
            (''payload'', SqlJsonb (JObj [(''dataset_id'', JStr ''D1'')])),
            (''error'', SqlNull), (''created_at'', SqlTimestamp 5),
            (''updated_at'', SqlTimestamp 5), (''lease_owner'', SqlNull),
            (''lease_until'', SqlNull), (''attempts'', SqlInt 0), (''priority'', SqlInt 0),
            (''queue'', SqlText ''default'')]
   \<and> field [(''id'', SqlUuid 0x11), (''kind'', SqlText ''train.llm''),
            (''status'', SqlText ''pending''),
            (''payload'', SqlJsonb (JObj [(''dataset_id'', JStr ''D1'')])),
            (''error'', SqlNull), (''created_at'', SqlTimestamp 5),
            (''updated_at'', SqlTimestamp 5), (''lease_owner'', SqlNull),
            (''lease_until'', SqlNull), (''attempts'', SqlInt 0), (''priority'', SqlInt 0),
            (''queue'', SqlText ''default'')] ''status'' = SqlText ''pending''"
proof -
  let ?b = "\<lparr> request_kind = ''train.llm'', request_queue = None, request_priority = None,
              request_payload = JObj [(''dataset_id'', JStr ''D1'')] \<rparr>"
  let ?j = "[(''id'', SqlUuid 0x11), (''kind'', SqlText ''train.llm''),
            (''status'', SqlText ''pending''),
            (''payload'', SqlJsonb (JObj [(''dataset_id'', JStr ''D1'')])),
            (''error'', SqlNull), (''created_at'', SqlTimestamp 5),
            (''updated_at'', SqlTimestamp 5), (''lease_owner'', SqlNull),
            (''lease_until'', SqlNull), (''attempts'', SqlInt 0), (''priority'', SqlInt 0),
            (''queue'', SqlText ''default'')]"
  have ins: "insert_row (\<lambda>v. []) 5 (table_columns ''jobs'') (insert_job 0x11 ?b) = Inr ?j"
    by code_simp
  from fresh_job_defaults [of "\<lambda>v. []" 5 "insert_job 0x11 ?b" ?j "''default''" "0x11" ?b ?j]
  have "field ?j ''status'' = SqlText ''pending''"
    by (simp add: ins)
  with ins show ?thesis by simp
qed

section \<open>Properties of the job statuses\<close>

lemma insert_into_row:
  "t \<in> set table_names \<Longrightarrow> insert_row to_text now (table_columns t) given = Inr r
     \<Longrightarrow> key_of (table_columns t) r \<notin> set (map (key_of (table_columns t)) (db t))
     \<Longrightarrow> references_ok db (table_columns t) r
     \<Longrightarrow> insert_into to_text now db t given = Inr (db(t := db t @ [r]))"
  by (simp add: insert_into_def)

lemma key_of_job: "key_of (table_columns ''jobs'') r = [field r ''id'']"
  by (simp add: key_of_def jobs_columns pk_def col_def)

lemma job_references_ok: "references_ok db (table_columns ''jobs'') r"
  by (simp add: references_ok_def jobs_columns pk_def col_def)

lemma job_with_status:
  assumes "valid_text k" and "valid_text st" and "valid_timestamp now"
  shows "insert_row to_text now (table_columns ''jobs'')
           [(''id'', SqlUuid u), (''kind'', SqlText k), (''status'', SqlText st)]
     = Inr [(''id'', SqlUuid u), (''kind'', SqlText k), (''status'', SqlText st),
            (''payload'', SqlJsonb (JObj [])), (''error'', SqlNull),
            (''created_at'', SqlTimestamp now), (''updated_at'', SqlTimestamp now),
            (''lease_owner'', SqlNull), (''lease_until'', SqlNull), (''attempts'', SqlInt 0),
            (''priority'', SqlInt 0), (''queue'', SqlText ''default'')]"
  using assms unfolding insert_row_def jobs_columns
  by (simp add: stored_def assign_def col_def pk_def has_column_def default_value_def
        valid_text_def)

text \<open>
  Claim C4, as the code has it. \<open>isTerminal\<close> holds of a value exactly when it is one
  of the strings done, failed, cancelled, the terminal statuses, which are three of the
  six statuses pending, running, paused, done, failed, cancelled; and every value the UI
  tells apart (a badge class of its own, an option of the status filter, a terminal
  status, a status that enables Cancel or Retry, the default of a polled job without
  status) is one of the six. A job row inserted without a status has the status pending,
  one of the six. The status column itself takes every text: a row with any status is a
  row of the table.
\<close>

theorem status_domain_and_isTerminal:
  "length spec_job_statuses = 6 \<and> distinct spec_job_statuses
   \<and> set spec_terminal_statuses \<subseteq> set spec_job_statuses
   \<and> (isTerminal s \<longleftrightarrow> (\<exists>t \<in> set spec_terminal_statuses. s = JStr t))
   \<and> (isTerminal s \<longrightarrow> (\<exists>t \<in> set spec_job_statuses. s = JStr t))
   \<and> (badgeClass s \<noteq> ''badge'' \<longrightarrow> (\<exists>t \<in> set spec_job_statuses. s = JStr t))
   \<and> set status_filter_options \<subseteq> set spec_job_statuses
   \<and> (table_row_actions j = Inr a \<and> (\<not> cancel_disabled a \<or> \<not> retry_disabled a) \<longrightarrow>
        (\<exists>t \<in> set spec_job_statuses. get_member j ''status'' = JStr t))
   \<and> (nullish (opt_prop j ''status'') \<longrightarrow> polled_status j = JStr ''pending'')
   \<and> ''pending'' \<in> set spec_job_statuses
   \<and> (insert_row to_text now (table_columns ''jobs'') given = Inr r
        \<and> map_of given ''status'' = None \<longrightarrow>
        (\<exists>t \<in> set spec_job_statuses. field r ''status'' = SqlText t))
   \<and> (valid_text k \<and> valid_text st \<and> valid_timestamp now \<longrightarrow>
        (\<exists>r. insert_row to_text now (table_columns ''jobs'')
                [(''id'', SqlUuid u), (''kind'', SqlText k), (''status'', SqlText st)] = Inr r
             \<and> field r ''status'' = SqlText st))"
proof -
  have dom: "length spec_job_statuses = 6 \<and> distinct spec_job_statuses"
    by (simp add: spec_job_statuses_def)
  have sub: "set spec_terminal_statuses \<subseteq> set spec_job_statuses"
    by (simp add: spec_job_statuses_def spec_terminal_statuses_def)
  have iff_terminal: "isTerminal s \<longleftrightarrow> (\<exists>t \<in> set spec_terminal_statuses. s = JStr t)"
    by (auto simp: isTerminal_def spec_terminal_statuses_def)
  have term_dom: "isTerminal s \<longrightarrow> (\<exists>t \<in> set spec_job_statuses. s = JStr t)"
    using iff_terminal sub by blast
  have badge: "badgeClass s \<noteq> ''badge'' \<longrightarrow> (\<exists>t \<in> set spec_job_statuses. s = JStr t)"
    by (simp add: badgeClass_def spec_job_statuses_def split: if_splits)
  have options: "set status_filter_options \<subseteq> set spec_job_statuses"
    by (simp add: status_filter_options_def spec_job_statuses_def)
  have buttons: "table_row_actions j = Inr a \<and> (\<not> cancel_disabled a \<or> \<not> retry_disabled a) \<longrightarrow>
        (\<exists>t \<in> set spec_job_statuses. get_member j ''status'' = JStr t)"
    by (auto simp: table_row_actions_def get_prop_def spec_job_statuses_def split: if_splits)
  have poll: "nullish (opt_prop j ''status'') \<longrightarrow> polled_status j = JStr ''pending''"
    by (simp add: polled_status_def coalesce_def)
  have pend: "''pending'' \<in> set spec_job_statuses"
    by (simp add: spec_job_statuses_def)
  have fresh: "insert_row to_text now (table_columns ''jobs'') given = Inr r
        \<and> map_of given ''status'' = None \<longrightarrow>
        (\<exists>t \<in> set spec_job_statuses. field r ''status'' = SqlText t)"
    using job_defaults(1) [of to_text now given r] pend by blast
  have any: "valid_text k \<and> valid_text st \<and> valid_timestamp now \<longrightarrow>
        (\<exists>r. insert_row to_text now (table_columns ''jobs'')
                [(''id'', SqlUuid u), (''kind'', SqlText k), (''status'', SqlText st)] = Inr r
             \<and> field r ''status'' = SqlText st)"
  proof
    assume "valid_text k \<and> valid_text st \<and> valid_timestamp now"
    then have "insert_row to_text now (table_columns ''jobs'')
           [(''id'', SqlUuid u), (''kind'', SqlText k), (''status'', SqlText st)]
     = Inr [(''id'', SqlUuid u), (''kind'', SqlText k), (''status'', SqlText st),
            (''payload'', SqlJsonb (JObj [])), (''error'', SqlNull),
            (''created_at'', SqlTimestamp now), (''updated_at'', SqlTimestamp now),
            (''lease_owner'', SqlNull), (''lease_until'', SqlNull), (''attempts'', SqlInt 0),
            (''priority'', SqlInt 0), (''queue'', SqlText ''default'')]"
      by (simp add: job_with_status)
    then show "\<exists>r. insert_row to_text now (table_columns ''jobs'')
                [(''id'', SqlUuid u), (''kind'', SqlText k), (''status'', SqlText st)] = Inr r
             \<and> field r ''status'' = SqlText st"
      by (simp add: field_def)
  qed
  from dom sub iff_terminal term_dom badge options buttons poll pend fresh any
  show ?thesis by blast
qed

theorem status_domain_and_isTerminal_witness:
  "isTerminal (JStr ''failed'') \<and> \<not> isTerminal (JStr ''paused'')
   \<and> badgeClass (JStr ''done'') \<noteq> ''badge''
   \<and> polled_status (JObj []) = JStr ''pending''
   \<and> (\<exists>r. insert_row (\<lambda>v. []) 7 (table_columns ''jobs'')
             [(''id'', SqlUuid 0x11), (''kind'', SqlText ''train''),
              (''status'', SqlText ''running'')] = Inr r
          \<and> field r ''status'' = SqlText ''running'')"
proof -
  have texts: "valid_text ''train'' \<and> valid_text ''running'' \<and> valid_timestamp 7"
    by (simp add: valid_text_def valid_timestamp_def)
  from status_domain_and_isTerminal
    [of "JStr ''failed''" "JObj []" _ "\<lambda>v. []" 7 "[]" _ "''train''" "''running''" "0x11"]
    status_domain_and_isTerminal [of "JStr ''paused''" "JObj []"] texts
  show ?thesis
    by (simp add: spec_terminal_statuses_def badgeClass_def opt_prop_def)
qed

text \<open>
  Against claim C4 as the specification states it: the database takes a job whose status
  is none of the six.
\<close>

theorem status_outside_domain_counterexample:
  "insert_into (\<lambda>v. []) 7 (\<lambda>t. []) ''jobs''
       [(''id'', SqlUuid 0x11), (''kind'', SqlText ''train''), (''status'', SqlText ''bogus'')]
     = Inr ((\<lambda>t. [])
         (''jobs'' :=
            [[(''id'', SqlUuid 0x11), (''kind'', SqlText ''train''),
              (''status'', SqlText ''bogus''), (''payload'', SqlJsonb (JObj [])),
              (''error'', SqlNull), (''created_at'', SqlTimestamp 7),
              (''updated_at'', SqlTimestamp 7), (''lease_owner'', SqlNull),
              (''lease_until'', SqlNull), (''attempts'', SqlInt 0), (''priority'', SqlInt 0),
              (''queue'', SqlText ''default'')]]))
   \<and> reachable ((\<lambda>t. [])
         (''jobs'' :=
            [[(''id'', SqlUuid 0x11), (''kind'', SqlText ''train''),
              (''status'', SqlText ''bogus''), (''payload'', SqlJsonb (JObj [])),
              (''error'', SqlNull), (''created_at'', SqlTimestamp 7),
              (''updated_at'', SqlTimestamp 7), (''lease_owner'', SqlNull),
              (''lease_until'', SqlNull), (''attempts'', SqlInt 0), (''priority'', SqlInt 0),
              (''queue'', SqlText ''default'')]]))
   \<and> ''bogus'' \<notin> set spec_job_statuses"
proof -
  let ?given = "[(''id'', SqlUuid 0x11), (''kind'', SqlText ''train''),
                 (''status'', SqlText ''bogus'')]"
  let ?r = "[(''id'', SqlUuid 0x11), (''kind'', SqlText ''train''),
              (''status'', SqlText ''bogus''), (''payload'', SqlJsonb (JObj [])),
              (''error'', SqlNull), (''created_at'', SqlTimestamp 7),
              (''updated_at'', SqlTimestamp 7), (''lease_owner'', SqlNull),
              (''lease_until'', SqlNull), (''attempts'', SqlInt 0), (''priority'', SqlInt 0),
              (''queue'', SqlText ''default'')]"
  have row: "insert_row (\<lambda>v. []) 7 (table_columns ''jobs'') ?given = Inr ?r"
    by code_simp
  have step: "insert_into (\<lambda>v. []) 7 (\<lambda>t. []) ''jobs'' ?given = Inr ((\<lambda>t. [])(''jobs'' := [?r]))"
    using insert_into_row [of "''jobs''" "\<lambda>v. []" 7 ?given ?r "\<lambda>t. []"]
    by (simp add: table_names_eq row job_references_ok)
  have reach: "reachable ((\<lambda>t. [])(''jobs'' := [?r]))"
    using reachable.inserted [OF reachable.empty step] .
  have "''bogus'' \<notin> set spec_job_statuses"
    by (simp add: spec_job_statuses_def)
  with step reach show ?thesis by simp
qed

section \<open>Properties of the dataset locks\<close>

lemma dataset_locks_columns:
  "table_columns ''dataset_locks'' =
     [pk ''dataset_id'' TEXT,
      fk ''job_id'' UUID ''jobs'' ''id'' True,
      col ''lease_until'' TIMESTAMPTZ True None]"
  by code_simp

lemma key_of_lock: "key_of (table_columns ''dataset_locks'') r = [field r ''dataset_id'']"
  by (simp add: key_of_def dataset_locks_columns pk_def fk_def col_def)

lemma reachable_keys_distinct:
  "reachable db \<Longrightarrow> distinct (map (key_of (table_columns t)) (db t))"
proof (induction arbitrary: t rule: reachable.induct)
  case empty
  show ?case by simp
next
  case (inserted db to_text now u given db')
  from inserted.hyps(2) obtain r where
    db': "db' = db(u := db u @ [r])" and
    fresh: "key_of (table_columns u) r \<notin> set (map (key_of (table_columns u)) (db u))"
    by (auto simp: insert_into_def split: if_splits sum.splits)
  show ?case
  proof (cases "t = u")
    case True
    with db' fresh inserted.IH [of u] show ?thesis by simp
  next
    case False
    with db' inserted.IH [of t] show ?thesis by simp
  qed
next
  case (deleted db u p db')
  from deleted.hyps(2) obtain keep where "db' = (\<lambda>v. filter (keep v) (db v))"
    by (auto simp: delete_from_def Let_def split: if_splits)
  with deleted.IH [of t] show ?case
    by (simp add: distinct_map_filter)
next
  case (updated db u p f db')
  from updated.hyps(2) obtain rs where
    db': "db' = db(u := rs)" and
    uniq: "distinct (map (key_of (table_columns u)) rs)"
    by (auto simp: update_rows_def Let_def split: if_splits option.splits)
  show ?case
  proof (cases "t = u")
    case True
    with db' uniq show ?thesis by simp
  next
    case False
    with db' updated.IH [of t] show ?thesis by simp
  qed
qed

lemma at_most_one_with_key:
  "distinct (map f xs) \<Longrightarrow> (\<And>x. x \<in> set xs \<Longrightarrow> P x \<Longrightarrow> f x = k) \<Longrightarrow> length (filter P xs) \<le> 1"
proof (induction xs)
  case Nil
  show ?case by simp
next
  case (Cons x xs)
  from Cons.prems have IH: "length (filter P xs) \<le> 1"
    by (intro Cons.IH) auto
  show ?case
  proof (cases "P x")
    case False
    with IH show ?thesis by simp
  next
    case True
    with Cons.prems(2) have kx: "f x = k" by simp
    have "filter P xs = []"
    proof (rule ccontr)
      assume "filter P xs \<noteq> []"
      then obtain y where y: "y \<in> set xs" "P y"
        by (metis filter_False)
      with Cons.prems(2) have "f y = f x" by (simp add: kx)
      moreover from y(1) have "f y \<in> set (map f xs)" by simp
      moreover from Cons.prems(1) have "f x \<notin> set (map f xs)" by simp
      ultimately show False by simp
    qed
    with True show ?thesis by simp
  qed
qed

lemma one_lock_row:
  assumes "reachable db"
  shows "length (lock_rows db d) \<le> 1"
proof -
  from assms have "distinct (map (key_of (table_columns ''dataset_locks'')) (db ''dataset_locks''))"
    by (rule reachable_keys_distinct)
  then have "length (filter (\<lambda>r. field r ''dataset_id'' = SqlText d) (db ''dataset_locks'')) \<le> 1"
    by (rule at_most_one_with_key [where k = "[SqlText d]"]) (simp add: key_of_lock)
  then show ?thesis by (simp add: lock_rows_def)
qed

lemma one_holder:
  assumes "reachable db"
    and "r \<in> set (db ''dataset_locks'')" and "r' \<in> set (db ''dataset_locks'')"
    and "field r ''dataset_id'' = field r' ''dataset_id''"
  shows "r = r'"
proof -
  from assms(1) have "distinct (map (key_of (table_columns ''dataset_locks'')) (db ''dataset_locks''))"
    by (rule reachable_keys_distinct)
  then have inj: "inj_on (key_of (table_columns ''dataset_locks'')) (set (db ''dataset_locks''))"
    by (simp add: distinct_map)
  from assms(4) have same: "key_of (table_columns ''dataset_locks'') r
      = key_of (table_columns ''dataset_locks'') r'"
    by (simp add: key_of_lock)
  from inj same assms(2,3) show ?thesis
    by (rule inj_onD)
qed

lemma one_running_holder:
  assumes "reachable db"
  shows "length (filter (\<lambda>j. holds db j d) (running_on db d)) \<le> 1"
proof -
  have jobs: "distinct (map (key_of (table_columns ''jobs'')) (db ''jobs''))"
    using assms by (rule reachable_keys_distinct)
  have len: "length (lock_rows db d) \<le> 1"
    using assms by (rule one_lock_row)
  let ?P = "\<lambda>j. (running j \<and> dataset_of j = Some d) \<and> holds db j d"
  have "length (filter ?P (db ''jobs'')) \<le> 1"
  proof (cases "lock_rows db d")
    case Nil
    then have "filter ?P (db ''jobs'') = []"
      by (simp add: holds_def)
    then show ?thesis by simp
  next
    case (Cons r rest)
    with len have rows: "lock_rows db d = [r]"
      by (cases rest) simp_all
    show ?thesis
      using jobs
    proof (rule at_most_one_with_key [where k = "[field r ''job_id'']"])
      fix j assume "j \<in> set (db ''jobs'')" and "?P j"
      then show "key_of (table_columns ''jobs'') j = [field r ''job_id'']"
        by (simp add: holds_def rows key_of_job)
    qed
  qed
  then show ?thesis
    by (simp add: running_on_def)
qed

text \<open>
  Claim C3, as the code has it. In every state of the database, dataset_locks has at
  most one row for a dataset, so two lock rows of the same dataset are one row and name
  one job: at most one job holds the lock of a dataset. Of the running jobs whose payload
  declares the dataset, at most one holds its lock.
\<close>

theorem one_lock_per_dataset:
  assumes "reachable db"
  shows "length (lock_rows db d) \<le> 1
       \<and> (r \<in> set (lock_rows db d) \<and> r' \<in> set (lock_rows db d)
            \<longrightarrow> r = r' \<and> field r ''job_id'' = field r' ''job_id'')
       \<and> length (filter (\<lambda>j. holds db j d) (running_on db d)) \<le> 1"
proof -
  have rows: "length (lock_rows db d) \<le> 1"
    using assms by (rule one_lock_row)
  have holder: "r \<in> set (lock_rows db d) \<and> r' \<in> set (lock_rows db d)
            \<longrightarrow> r = r' \<and> field r ''job_id'' = field r' ''job_id''"
    using one_holder [OF assms, of r r'] by (auto simp: lock_rows_def)
  have held: "length (filter (\<lambda>j. holds db j d) (running_on db d)) \<le> 1"
    using assms by (rule one_running_holder)
  from rows holder held show ?thesis by blast
qed

lemma two_running_jobs:
  "insert_row (\<lambda>v. []) 5 (table_columns ''jobs'')
       [(''id'', SqlUuid 0x11), (''kind'', SqlText ''train.llm''),
        (''status'', SqlText ''running''),
        (''payload'', SqlJsonb (JObj [(''dataset_id'', JStr ''D1'')])),
        (''lease_owner'', SqlText ''w1''), (''lease_until'', SqlTimestamp 9),
        (''attempts'', SqlInt 1)]
     = Inr [(''id'', SqlUuid 0x11), (''kind'', SqlText ''train.llm''),
            (''status'', SqlText ''running''),
            (''payload'', SqlJsonb (JObj [(''dataset_id'', JStr ''D1'')])),
            (''error'', SqlNull), (''created_at'', SqlTimestamp 5),
            (''updated_at'', SqlTimestamp 5), (''lease_owner'', SqlText ''w1''),
            (''lease_until'', SqlTimestamp 9), (''attempts'', SqlInt 1),
            (''priority'', SqlInt 0), (''queue'', SqlText ''default'')]"
  "insert_row (\<lambda>v. []) 6 (table_columns ''dataset_locks'')
       [(''dataset_id'', SqlText ''D1''), (''job_id'', SqlUuid 0x11),
        (''lease_until'', SqlTimestamp 9)]
     = Inr [(''dataset_id'', SqlText ''D1''), (''job_id'', SqlUuid 0x11),
            (''lease_until'', SqlTimestamp 9)]"
  "insert_row (\<lambda>v. []) 7 (table_columns ''jobs'')
       [(''id'', SqlUuid 0x12), (''kind'', SqlText ''train.llm''),
        (''status'', SqlText ''running''),
        (''payload'', SqlJsonb (JObj [(''dataset_id'', JStr ''D1'')])),
        (''lease_owner'', SqlText ''w2''), (''lease_until'', SqlTimestamp 9),
        (''attempts'', SqlInt 1)]
     = Inr [(''id'', SqlUuid 0x12), (''kind'', SqlText ''train.llm''),
            (''status'', SqlText ''running''),
            (''payload'', SqlJsonb (JObj [(''dataset_id'', JStr ''D1'')])),
            (''error'', SqlNull), (''created_at'', SqlTimestamp 7),
            (''updated_at'', SqlTimestamp 7), (''lease_owner'', SqlText ''w2''),
            (''lease_until'', SqlTimestamp 9), (''attempts'', SqlInt 1),
            (''priority'', SqlInt 0), (''queue'', SqlText ''default'')]"
  by code_simp+

lemma three_inserts:
  "reachable ((\<lambda>t. [])
       (''jobs'' :=
          [[(''id'', SqlUuid 0x11), (''kind'', SqlText ''train.llm''),
            (''status'', SqlText ''running''),
            (''payload'', SqlJsonb (JObj [(''dataset_id'', JStr ''D1'')])),
            (''error'', SqlNull), (''created_at'', SqlTimestamp 5),
            (''updated_at'', SqlTimestamp 5), (''lease_owner'', SqlText ''w1''),
            (''lease_until'', SqlTimestamp 9), (''attempts'', SqlInt 1),
            (''priority'', SqlInt 0), (''queue'', SqlText ''default'')]],
        ''dataset_locks'' :=
          [[(''dataset_id'', SqlText ''D1''), (''job_id'', SqlUuid 0x11),
            (''lease_until'', SqlTimestamp 9)]]))"
  "reachable ((\<lambda>t. [])
       (''jobs'' :=
          [[(''id'', SqlUuid 0x11), (''kind'', SqlText ''train.llm''),
            (''status'', SqlText ''running''),
            (''payload'', SqlJsonb (JObj [(''dataset_id'', JStr ''D1'')])),
            (''error'', SqlNull), (''created_at'', SqlTimestamp 5),
            (''updated_at'', SqlTimestamp 5), (''lease_owner'', SqlText ''w1''),
            (''lease_until'', SqlTimestamp 9), (''attempts'', SqlInt 1),
            (''priority'', SqlInt 0), (''queue'', SqlText ''default'')]],
        ''dataset_locks'' :=
          [[(''dataset_id'', SqlText ''D1''), (''job_id'', SqlUuid 0x11),
            (''lease_until'', SqlTimestamp 9)]],
        ''jobs'' :=
          [[(''id'', SqlUuid 0x11), (''kind'', SqlText ''train.llm''),
            (''status'', SqlText ''running''),
            (''payload'', SqlJsonb (JObj [(''dataset_id'', JStr ''D1'')])),
            (''error'', SqlNull), (''created_at'', SqlTimestamp 5),
            (''updated_at'', SqlTimestamp 5), (''lease_owner'', SqlText ''w1''),
            (''lease_until'', SqlTimestamp 9), (''attempts'', SqlInt 1),
            (''priority'', SqlInt 0), (''queue'', SqlText ''default'')],
           [(''id'', SqlUuid 0x12), (''kind'', SqlText ''train.llm''),
            (''status'', SqlText ''running''),
            (''payload'', SqlJsonb (JObj [(''dataset_id'', JStr ''D1'')])),
            (''error'', SqlNull), (''created_at'', SqlTimestamp 7),
            (''updated_at'', SqlTimestamp 7), (''lease_owner'', SqlText ''w2''),
            (''lease_until'', SqlTimestamp 9), (''attempts'', SqlInt 1),
            (''priority'', SqlInt 0), (''queue'', SqlText ''default'')]]))"
proof -
  let ?g1 = "[(''id'', SqlUuid 0x11), (''kind'', SqlText ''train.llm''),
        (''status'', SqlText ''running''),
        (''payload'', SqlJsonb (JObj [(''dataset_id'', JStr ''D1'')])),
        (''lease_owner'', SqlText ''w1''), (''lease_until'', SqlTimestamp 9),
        (''attempts'', SqlInt 1)]"
  let ?j1 = "[(''id'', SqlUuid 0x11), (''kind'', SqlText ''train.llm''),
            (''status'', SqlText ''running''),
            (''payload'', SqlJsonb (JObj [(''dataset_id'', JStr ''D1'')])),
            (''error'', SqlNull), (''created_at'', SqlTimestamp 5),
            (''updated_at'', SqlTimestamp 5), (''lease_owner'', SqlText ''w1''),
            (''lease_until'', SqlTimestamp 9), (''attempts'', SqlInt 1),
            (''priority'', SqlInt 0), (''queue'', SqlText ''default'')]"
  let ?lock = "[(''dataset_id'', SqlText ''D1''), (''job_id'', SqlUuid 0x11),
            (''lease_until'', SqlTimestamp 9)]"
  let ?g2 = "[(''id'', SqlUuid 0x12), (''kind'', SqlText ''train.llm''),
        (''status'', SqlText ''running''),
        (''payload'', SqlJsonb (JObj [(''dataset_id'', JStr ''D1'')])),
        (''lease_owner'', SqlText ''w2''), (''lease_until'', SqlTimestamp 9),
        (''attempts'', SqlInt 1)]"
  let ?j2 = "[(''id'', SqlUuid 0x12), (''kind'', SqlText ''train.llm''),
            (''status'', SqlText ''running''),
            (''payload'', SqlJsonb (JObj [(''dataset_id'', JStr ''D1'')])),
            (''error'', SqlNull), (''created_at'', SqlTimestamp 7),
            (''updated_at'', SqlTimestamp 7), (''lease_owner'', SqlText ''w2''),
            (''lease_until'', SqlTimestamp 9), (''attempts'', SqlInt 1),
            (''priority'', SqlInt 0), (''queue'', SqlText ''default'')]"
  let ?db1 = "(\<lambda>t. [])(''jobs'' := [?j1]) :: database"
  let ?db2 = "(\<lambda>t. [])(''jobs'' := [?j1], ''dataset_locks'' := [?lock]) :: database"
  let ?db3 = "(\<lambda>t. [])(''jobs'' := [?j1], ''dataset_locks'' := [?lock],
                 ''jobs'' := [?j1, ?j2]) :: database"
  have step1: "insert_into (\<lambda>v. []) 5 (\<lambda>t. []) ''jobs'' ?g1 = Inr ?db1"
    using insert_into_row [of "''jobs''" "\<lambda>v. []" 5 ?g1 ?j1 "\<lambda>t. []"]
    by (simp add: table_names_eq two_running_jobs(1) job_references_ok)
  have refs2: "references_ok ?db1 (table_columns ''dataset_locks'') ?lock"
    by (simp add: references_ok_def dataset_locks_columns pk_def fk_def col_def field_def)
  have step2: "insert_into (\<lambda>v. []) 6 ?db1 ''dataset_locks'' ?lock = Inr ?db2"
    using insert_into_row [of "''dataset_locks''" "\<lambda>v. []" 6 ?lock ?lock ?db1]
    by (simp add: table_names_eq two_running_jobs(2) refs2)
  have fresh3: "key_of (table_columns ''jobs'') ?j2
      \<notin> set (map (key_of (table_columns ''jobs'')) (?db2 ''jobs''))"
    by (simp add: key_of_job field_def)
  have step3: "insert_into (\<lambda>v. []) 7 ?db2 ''jobs'' ?g2 = Inr ?db3"
    using insert_into_row [of "''jobs''" "\<lambda>v. []" 7 ?g2 ?j2 ?db2, OF _ two_running_jobs(3) fresh3]
    by (simp add: table_names_eq job_references_ok)
  have reach2: "reachable ?db2"
    using reachable.inserted [OF reachable.inserted [OF reachable.empty step1] step2] .
  then show "reachable ?db2" .
  show "reachable ?db3"
    using reachable.inserted [OF reach2 step3] .
qed

theorem one_lock_per_dataset_witness:
  "reachable ((\<lambda>t. [])
       (''jobs'' :=
          [[(''id'', SqlUuid 0x11), (''kind'', SqlText ''train.llm''),
            (''status'', SqlText ''running''),
            (''payload'', SqlJsonb (JObj [(''dataset_id'', JStr ''D1'')])),
            (''error'', SqlNull), (''created_at'', SqlTimestamp 5),
            (''updated_at'', SqlTimestamp 5), (''lease_owner'', SqlText ''w1''),
            (''lease_until'', SqlTimestamp 9), (''attempts'', SqlInt 1),
            (''priority'', SqlInt 0), (''queue'', SqlText ''default'')]],
        ''dataset_locks'' :=
          [[(''dataset_id'', SqlText ''D1''), (''job_id'', SqlUuid 0x11),
            (''lease_until'', SqlTimestamp 9)]]))
   \<and> length (lock_rows ((\<lambda>t. [])
       (''jobs'' :=
          [[(''id'', SqlUuid 0x11), (''kind'', SqlText ''train.llm''),
            (''status'', SqlText ''running''),
            (''payload'', SqlJsonb (JObj [(''dataset_id'', JStr ''D1'')])),
            (''error'', SqlNull), (''created_at'', SqlTimestamp 5),
            (''updated_at'', SqlTimestamp 5), (''lease_owner'', SqlText ''w1''),
            (''lease_until'', SqlTimestamp 9), (''attempts'', SqlInt 1),
            (''priority'', SqlInt 0), (''queue'', SqlText ''default'')]],
        ''dataset_locks'' :=
          [[(''dataset_id'', SqlText ''D1''), (''job_id'', SqlUuid 0x11),
            (''lease_until'', SqlTimestamp 9)]])) ''D1'') \<le> 1"
  using one_lock_per_dataset [OF three_inserts(1), of "''D1''"] three_inserts(1)
  by blast

text \<open>
  Against claim C3 as the specification states it: after three INSERTs that the database
  accepts, two running jobs declare the dataset D1, whose one lock row names the first.
\<close>

theorem two_running_on_dataset_counterexample:
  "reachable ((\<lambda>t. [])
       (''jobs'' :=
          [[(''id'', SqlUuid 0x11), (''kind'', SqlText ''train.llm''),
            (''status'', SqlText ''running''),
            (''payload'', SqlJsonb (JObj [(''dataset_id'', JStr ''D1'')])),
            (''error'', SqlNull), (''created_at'', SqlTimestamp 5),
            (''updated_at'', SqlTimestamp 5), (''lease_owner'', SqlText ''w1''),
            (''lease_until'', SqlTimestamp 9), (''attempts'', SqlInt 1),
            (''priority'', SqlInt 0), (''queue'', SqlText ''default'')]],
        ''dataset_locks'' :=
          [[(''dataset_id'', SqlText ''D1''), (''job_id'', SqlUuid 0x11),
            (''lease_until'', SqlTimestamp 9)]],
        ''jobs'' :=
          [[(''id'', SqlUuid 0x11), (''kind'', SqlText ''train.llm''),
            (''status'', SqlText ''running''),
            (''payload'', SqlJsonb (JObj [(''dataset_id'', JStr ''D1'')])),
            (''error'', SqlNull), (''created_at'', SqlTimestamp 5),
            (''updated_at'', SqlTimestamp 5), (''lease_owner'', SqlText ''w1''),
            (''lease_until'', SqlTimestamp 9), (''attempts'', SqlInt 1),
            (''priority'', SqlInt 0), (''queue'', SqlText ''default'')],
           [(''id'', SqlUuid 0x12), (''kind'', SqlText ''train.llm''),
            (''status'', SqlText ''running''),
            (''payload'', SqlJsonb (JObj [(''dataset_id'', JStr ''D1'')])),
            (''error'', SqlNull), (''created_at'', SqlTimestamp 7),
            (''updated_at'', SqlTimestamp 7), (''lease_owner'', SqlText ''w2''),
            (''lease_until'', SqlTimestamp 9), (''attempts'', SqlInt 1),
            (''priority'', SqlInt 0), (''queue'', SqlText ''default'')]]))
   \<and> length (running_on ((\<lambda>t. [])
       (''jobs'' :=
          [[(''id'', SqlUuid 0x11), (''kind'', SqlText ''train.llm''),
            (''status'', SqlText ''running''),
            (''payload'', SqlJsonb (JObj [(''dataset_id'', JStr ''D1'')])),
            (''error'', SqlNull), (''created_at'', SqlTimestamp 5),
            (''updated_at'', SqlTimestamp 5), (''lease_owner'', SqlText ''w1''),
            (''lease_until'', SqlTimestamp 9), (''attempts'', SqlInt 1),
            (''priority'', SqlInt 0), (''queue'', SqlText ''default'')]],
        ''dataset_locks'' :=
          [[(''dataset_id'', SqlText ''D1''), (''job_id'', SqlUuid 0x11),
            (''lease_until'', SqlTimestamp 9)]],
        ''jobs'' :=
          [[(''id'', SqlUuid 0x11), (''kind'', SqlText ''train.llm''),
            (''status'', SqlText ''running''),
            (''payload'', SqlJsonb (JObj [(''dataset_id'', JStr ''D1'')])),
            (''error'', SqlNull), (''created_at'', SqlTimestamp 5),
            (''updated_at'', SqlTimestamp 5), (''lease_owner'', SqlText ''w1''),
            (''lease_until'', SqlTimestamp 9), (''attempts'', SqlInt 1),
            (''priority'', SqlInt 0), (''queue'', SqlText ''default'')],
           [(''id'', SqlUuid 0x12), (''kind'', SqlText ''train.llm''),
            (''status'', SqlText ''running''),
            (''payload'', SqlJsonb (JObj [(''dataset_id'', JStr ''D1'')])),
            (''error'', SqlNull), (''created_at'', SqlTimestamp 7),
            (''updated_at'', SqlTimestamp 7), (''lease_owner'', SqlText ''w2''),
            (''lease_until'', SqlTimestamp 9), (''attempts'', SqlInt 1),
            (''priority'', SqlInt 0), (''queue'', SqlText ''default'')]])) ''D1'') = 2"
  using three_inserts(2)
  by (simp add: running_on_def running_def dataset_of_def field_def)

section \<open>Properties of the webhook outbox\<close>

lemma outbox_columns:
  "table_columns ''webhook_outbox'' =
     [pk ''id'' UUID,
      fk ''job_id'' UUID ''jobs'' ''id'' True,
      col ''event'' JSONB True None,
      col ''status'' TEXT True (Some (Literal (SqlText ''pending''))),
      col ''attempts'' INTEGER True (Some (Literal (SqlInt 0))),
      col ''next_attempt_at'' TIMESTAMPTZ True (Some NOW),
      col ''created_at'' TIMESTAMPTZ True (Some NOW),
      col ''delivered_at'' TIMESTAMPTZ False None,
      col ''locked_by'' TEXT False None,
      col ''locked_until'' TIMESTAMPTZ False None,
      col ''last_error'' TEXT False None]"
  by code_simp

lemma assign_text:
  "assign to_text c v = Inr w \<Longrightarrow> col_type c = TEXT \<Longrightarrow> w = SqlNull \<or> (\<exists>s. w = SqlText s)"
  by (cases v) (auto simp: assign_def split: if_splits)

lemma outbox_status_text:
  assumes "insert_row to_text now (table_columns ''webhook_outbox'') given = Inr r"
  shows "\<exists>s. field r ''status'' = SqlText s"
proof -
  let ?c = "col ''status'' TEXT True (Some (Literal (SqlText ''pending'')))"
  have "stored to_text now given ?c = Inr (field r ''status'')"
    by (rule insert_row_field [OF assms]) (simp add: outbox_columns col_def pk_def fk_def)
  then obtain v where v: "assign to_text ?c v = Inr (field r ''status'')"
    and nn: "field r ''status'' \<noteq> SqlNull"
    by (auto simp: stored_def col_def split: sum.splits if_splits)
  from assign_text [OF v] nn show ?thesis
    by (simp add: col_def)
qed

lemma outbox_defaults:
  assumes "insert_row to_text now (table_columns ''webhook_outbox'') given = Inr r"
  shows "map_of given ''status'' = None \<Longrightarrow> field r ''status'' = SqlText ''pending''"
    and "map_of given ''delivered_at'' = None \<Longrightarrow> field r ''delivered_at'' = SqlNull"
proof -
  have status: "stored to_text now given (col ''status'' TEXT True (Some (Literal (SqlText ''pending''))))
      = Inr (field r ''status'')"
    by (rule insert_row_field [OF assms]) (simp add: outbox_columns col_def pk_def fk_def)
  have at: "stored to_text now given (col ''delivered_at'' TIMESTAMPTZ False None)
      = Inr (field r ''delivered_at'')"
    by (rule insert_row_field [OF assms]) (simp add: outbox_columns col_def pk_def fk_def)
  show "map_of given ''status'' = None \<Longrightarrow> field r ''status'' = SqlText ''pending''"
    using status by (simp add: stored_def assign_def col_def default_value_def valid_text_def)
  show "map_of given ''delivered_at'' = None \<Longrightarrow> field r ''delivered_at'' = SqlNull"
    using at by (simp add: stored_def assign_def col_def default_value_def)
qed

lemma outbox_row_with:
  assumes "valid_text st" and "is_json e" and "valid_timestamp now"
    and "d = SqlNull \<or> (\<exists>t. d = SqlTimestamp t \<and> valid_timestamp t)"
  shows "insert_row to_text now (table_columns ''webhook_outbox'')
           [(''id'', SqlUuid u), (''job_id'', SqlUuid j), (''event'', SqlJsonb e),
            (''status'', SqlText st), (''delivered_at'', d)]
     = Inr [(''id'', SqlUuid u), (''job_id'', SqlUuid j), (''event'', SqlJsonb e),
            (''status'', SqlText st), (''attempts'', SqlInt 0),
            (''next_attempt_at'', SqlTimestamp now), (''created_at'', SqlTimestamp now),
            (''delivered_at'', d), (''locked_by'', SqlNull), (''locked_until'', SqlNull),
            (''last_error'', SqlNull)]"
  using assms unfolding insert_row_def outbox_columns
  by (auto simp: stored_def assign_def col_def pk_def fk_def has_column_def default_value_def
        valid_text_def)

text \<open>
  Claim C2, as the code has it. The status of every row of webhook_outbox is a text
  and not null, and it is pending when the INSERT names none. A row inserted with the
  defaults of status and delivered_at has status pending and no delivered_at, and so has
  a delivered_at exactly when its status is delivered. The table takes every text as a
  status together with every delivered_at, a timestamp or none: no constraint confines
  the status to a set of values or ties delivered_at to it.
\<close>

theorem outbox_status_and_delivered_at:
  "(insert_row to_text now (table_columns ''webhook_outbox'') given = Inr r \<longrightarrow>
      (\<exists>s. field r ''status'' = SqlText s)
    \<and> (map_of given ''status'' = None \<longrightarrow> field r ''status'' = SqlText ''pending'')
    \<and> (map_of given ''delivered_at'' = None \<longrightarrow> field r ''delivered_at'' = SqlNull)
    \<and> (map_of given ''status'' = None \<and> map_of given ''delivered_at'' = None \<longrightarrow>
         (field r ''delivered_at'' \<noteq> SqlNull \<longleftrightarrow> field r ''status'' = SqlText ''delivered'')))
   \<and> (valid_text st \<and> is_json e \<and> valid_timestamp now
        \<and> (d = SqlNull \<or> (\<exists>t. d = SqlTimestamp t \<and> valid_timestamp t)) \<longrightarrow>
        (\<exists>row. insert_row to_text now (table_columns ''webhook_outbox'')
                  [(''id'', SqlUuid u), (''job_id'', SqlUuid j), (''event'', SqlJsonb e),
                   (''status'', SqlText st), (''delivered_at'', d)] = Inr row
              \<and> field row ''status'' = SqlText st \<and> field row ''delivered_at'' = d))"
proof -
  have rows: "insert_row to_text now (table_columns ''webhook_outbox'') given = Inr r \<longrightarrow>
      (\<exists>s. field r ''status'' = SqlText s)
    \<and> (map_of given ''status'' = None \<longrightarrow> field r ''status'' = SqlText ''pending'')
    \<and> (map_of given ''delivered_at'' = None \<longrightarrow> field r ''delivered_at'' = SqlNull)
    \<and> (map_of given ''status'' = None \<and> map_of given ''delivered_at'' = None \<longrightarrow>
         (field r ''delivered_at'' \<noteq> SqlNull \<longleftrightarrow> field r ''status'' = SqlText ''delivered''))"
  proof
    assume ins: "insert_row to_text now (table_columns ''webhook_outbox'') given = Inr r"
    from outbox_status_text [OF ins] outbox_defaults(1) [OF ins] outbox_defaults(2) [OF ins]
    show "(\<exists>s. field r ''status'' = SqlText s)
    \<and> (map_of given ''status'' = None \<longrightarrow> field r ''status'' = SqlText ''pending'')
    \<and> (map_of given ''delivered_at'' = None \<longrightarrow> field r ''delivered_at'' = SqlNull)
    \<and> (map_of given ''status'' = None \<and> map_of given ''delivered_at'' = None \<longrightarrow>
         (field r ''delivered_at'' \<noteq> SqlNull \<longleftrightarrow> field r ''status'' = SqlText ''delivered''))"
      by auto
  qed
  have any: "valid_text st \<and> is_json e \<and> valid_timestamp now
        \<and> (d = SqlNull \<or> (\<exists>t. d = SqlTimestamp t \<and> valid_timestamp t)) \<longrightarrow>
        (\<exists>row. insert_row to_text now (table_columns ''webhook_outbox'')
                  [(''id'', SqlUuid u), (''job_id'', SqlUuid j), (''event'', SqlJsonb e),
                   (''status'', SqlText st), (''delivered_at'', d)] = Inr row
              \<and> field row ''status'' = SqlText st \<and> field row ''delivered_at'' = d)"
  proof
    assume a: "valid_text st \<and> is_json e \<and> valid_timestamp now
        \<and> (d = SqlNull \<or> (\<exists>t. d = SqlTimestamp t \<and> valid_timestamp t))"
    then have "insert_row to_text now (table_columns ''webhook_outbox'')
           [(''id'', SqlUuid u), (''job_id'', SqlUuid j), (''event'', SqlJsonb e),
            (''status'', SqlText st), (''delivered_at'', d)]
     = Inr [(''id'', SqlUuid u), (''job_id'', SqlUuid j), (''event'', SqlJsonb e),
            (''status'', SqlText st), (''attempts'', SqlInt 0),
            (''next_attempt_at'', SqlTimestamp now), (''created_at'', SqlTimestamp now),
            (''delivered_at'', d), (''locked_by'', SqlNull), (''locked_until'', SqlNull),
            (''last_error'', SqlNull)]"
      by (intro outbox_row_with) simp_all
    then show "\<exists>row. insert_row to_text now (table_columns ''webhook_outbox'')
                  [(''id'', SqlUuid u), (''job_id'', SqlUuid j), (''event'', SqlJsonb e),
                   (''status'', SqlText st), (''delivered_at'', d)] = Inr row
              \<and> field row ''status'' = SqlText st \<and> field row ''delivered_at'' = d"
      by (simp add: field_def)
  qed
  from rows any show ?thesis ..
qed

theorem outbox_status_and_delivered_at_witness:
  "insert_row (\<lambda>v. []) 7 (table_columns ''webhook_outbox'')
       [(''id'', SqlUuid 0x21), (''job_id'', SqlUuid 0x11), (''event'', SqlJsonb (JObj []))]
     = Inr [(''id'', SqlUuid 0x21), (''job_id'', SqlUuid 0x11),
            (''event'', SqlJsonb (JObj [])), (''status'', SqlText ''pending''),
            (''attempts'', SqlInt 0), (''next_attempt_at'', SqlTimestamp 7),
            (''created_at'', SqlTimestamp 7), (''delivered_at'', SqlNull),
            (''locked_by'', SqlNull), (''locked_until'', SqlNull), (''last_error'', SqlNull)]
   \<and> field [(''id'', SqlUuid 0x21), (''job_id'', SqlUuid 0x11),
            (''event'', SqlJsonb (JObj [])), (''status'', SqlText ''pending''),
            (''attempts'', SqlInt 0), (''next_attempt_at'', SqlTimestamp 7),
            (''created_at'', SqlTimestamp 7), (''delivered_at'', SqlNull),
            (''locked_by'', SqlNull), (''locked_until'', SqlNull), (''last_error'', SqlNull)]
       ''delivered_at'' = SqlNull
   \<and> (\<exists>row. insert_row (\<lambda>v. []) 7 (table_columns ''webhook_outbox'')
                [(''id'', SqlUuid 0x22), (''job_id'', SqlUuid 0x11),
                 (''event'', SqlJsonb (JObj [])), (''status'', SqlText ''delivered''),
                 (''delivered_at'', SqlNull)] = Inr row
            \<and> field row ''status'' = SqlText ''delivered''
            \<and> field row ''delivered_at'' = SqlNull)"
proof -
  let ?given = "[(''id'', SqlUuid 0x21), (''job_id'', SqlUuid 0x11),
                 (''event'', SqlJsonb (JObj []))]"
  let ?r = "[(''id'', SqlUuid 0x21), (''job_id'', SqlUuid 0x11),
            (''event'', SqlJsonb (JObj [])), (''status'', SqlText ''pending''),
            (''attempts'', SqlInt 0), (''next_attempt_at'', SqlTimestamp 7),
            (''created_at'', SqlTimestamp 7), (''delivered_at'', SqlNull),
            (''locked_by'', SqlNull), (''locked_until'', SqlNull), (''last_error'', SqlNull)]"
  have ins: "insert_row (\<lambda>v. []) 7 (table_columns ''webhook_outbox'') ?given = Inr ?r"
    by code_simp
  from outbox_status_and_delivered_at [of "\<lambda>v. []" 7 ?given ?r]
  have none: "field ?r ''delivered_at'' = SqlNull"
    by (simp add: ins)
  have ok: "valid_text ''delivered''" "is_json (JObj [])" "valid_timestamp 7"
    by (simp_all add: valid_text_def valid_timestamp_def)
  from outbox_status_and_delivered_at
    [where st = "''delivered''" and e = "JObj []" and now = 7 and d = SqlNull
       and to_text = "\<lambda>v. []" and u = "0x22" and j = "0x11"] ok
  have any: "\<exists>row. insert_row (\<lambda>v. []) 7 (table_columns ''webhook_outbox'')
                [(''id'', SqlUuid 0x22), (''job_id'', SqlUuid 0x11),
                 (''event'', SqlJsonb (JObj [])), (''status'', SqlText ''delivered''),
                 (''delivered_at'', SqlNull)] = Inr row
            \<and> field row ''status'' = SqlText ''delivered''
            \<and> field row ''delivered_at'' = SqlNull"
    by blast
  from ins none any show ?thesis by blast
qed

text \<open>
  Against claim C2 as the specification states it: in a database that holds the job, the
  outbox takes a row whose status is retrying, the fourth value of the comment on the
  column, and a row whose status is delivered and whose delivered_at is null.
\<close>

theorem outbox_rows_counterexample:
  "insert_into (\<lambda>v. []) 7
       ((\<lambda>t. [])(''jobs'' := [[(''id'', SqlUuid 0x11), (''kind'', SqlText ''train.llm''),
            (''status'', SqlText ''done''), (''payload'', SqlJsonb (JObj [])),
            (''error'', SqlNull), (''created_at'', SqlTimestamp 5),
            (''updated_at'', SqlTimestamp 6), (''lease_owner'', SqlNull),
            (''lease_until'', SqlNull), (''attempts'', SqlInt 1),
            (''priority'', SqlInt 0), (''queue'', SqlText ''default'')]]))
       ''webhook_outbox''
       [(''id'', SqlUuid 0x21), (''job_id'', SqlUuid 0x11), (''event'', SqlJsonb (JObj [])),
        (''status'', SqlText ''retrying''), (''attempts'', SqlInt 2)]
     = Inr ((\<lambda>t. [])
         (''jobs'' := [[(''id'', SqlUuid 0x11), (''kind'', SqlText ''train.llm''),
            (''status'', SqlText ''done''), (''payload'', SqlJsonb (JObj [])),
            (''error'', SqlNull), (''created_at'', SqlTimestamp 5),
            (''updated_at'', SqlTimestamp 6), (''lease_owner'', SqlNull),
            (''lease_until'', SqlNull), (''attempts'', SqlInt 1),
            (''priority'', SqlInt 0), (''queue'', SqlText ''default'')]],
          ''webhook_outbox'' :=
            [[(''id'', SqlUuid 0x21), (''job_id'', SqlUuid 0x11),
              (''event'', SqlJsonb (JObj [])), (''status'', SqlText ''retrying''),
              (''attempts'', SqlInt 2), (''next_attempt_at'', SqlTimestamp 7),
              (''created_at'', SqlTimestamp 7), (''delivered_at'', SqlNull),
              (''locked_by'', SqlNull), (''locked_until'', SqlNull),
              (''last_error'', SqlNull)]]))
   \<and> insert_into (\<lambda>v. []) 7
       ((\<lambda>t. [])(''jobs'' := [[(''id'', SqlUuid 0x11), (''kind'', SqlText ''train.llm''),
            (''status'', SqlText ''done''), (''payload'', SqlJsonb (JObj [])),
            (''error'', SqlNull), (''created_at'', SqlTimestamp 5),
            (''updated_at'', SqlTimestamp 6), (''lease_owner'', SqlNull),
            (''lease_until'', SqlNull), (''attempts'', SqlInt 1),
            (''priority'', SqlInt 0), (''queue'', SqlText ''default'')]]))
       ''webhook_outbox''
       [(''id'', SqlUuid 0x22), (''job_id'', SqlUuid 0x11), (''event'', SqlJsonb (JObj [])),
        (''status'', SqlText ''delivered'')]
     = Inr ((\<lambda>t. [])
         (''jobs'' := [[(''id'', SqlUuid 0x11), (''kind'', SqlText ''train.llm''),
            (''status'', SqlText ''done''), (''payload'', SqlJsonb (JObj [])),
            (''error'', SqlNull), (''created_at'', SqlTimestamp 5),
            (''updated_at'', SqlTimestamp 6), (''lease_owner'', SqlNull),
            (''lease_until'', SqlNull), (''attempts'', SqlInt 1),
            (''priority'', SqlInt 0), (''queue'', SqlText ''default'')]],
          ''webhook_outbox'' :=
            [[(''id'', SqlUuid 0x22), (''job_id'', SqlUuid 0x11),
              (''event'', SqlJsonb (JObj [])), (''status'', SqlText ''delivered''),
              (''attempts'', SqlInt 0), (''next_attempt_at'', SqlTimestamp 7),
              (''created_at'', SqlTimestamp 7), (''delivered_at'', SqlNull),
              (''locked_by'', SqlNull), (''locked_until'', SqlNull),
              (''last_error'', SqlNull)]]))"
proof -
  let ?db = "(\<lambda>t. [])(''jobs'' := [[(''id'', SqlUuid 0x11), (''kind'', SqlText ''train.llm''),
            (''status'', SqlText ''done''), (''payload'', SqlJsonb (JObj [])),
            (''error'', SqlNull), (''created_at'', SqlTimestamp 5),
            (''updated_at'', SqlTimestamp 6), (''lease_owner'', SqlNull),
            (''lease_until'', SqlNull), (''attempts'', SqlInt 1),
            (''priority'', SqlInt 0), (''queue'', SqlText ''default'')]])
               :: database"
  let ?g1 = "[(''id'', SqlUuid 0x21), (''job_id'', SqlUuid 0x11),
              (''event'', SqlJsonb (JObj [])), (''status'', SqlText ''retrying''),
              (''attempts'', SqlInt 2)]"
  let ?r1 = "[(''id'', SqlUuid 0x21), (''job_id'', SqlUuid 0x11),
              (''event'', SqlJsonb (JObj [])), (''status'', SqlText ''retrying''),
              (''attempts'', SqlInt 2), (''next_attempt_at'', SqlTimestamp 7),
              (''created_at'', SqlTimestamp 7), (''delivered_at'', SqlNull),
              (''locked_by'', SqlNull), (''locked_until'', SqlNull),
              (''last_error'', SqlNull)]"
  let ?g2 = "[(''id'', SqlUuid 0x22), (''job_id'', SqlUuid 0x11),
              (''event'', SqlJsonb (JObj [])), (''status'', SqlText ''delivered'')]"
  let ?r2 = "[(''id'', SqlUuid 0x22), (''job_id'', SqlUuid 0x11),
              (''event'', SqlJsonb (JObj [])), (''status'', SqlText ''delivered''),
              (''attempts'', SqlInt 0), (''next_attempt_at'', SqlTimestamp 7),
              (''created_at'', SqlTimestamp 7), (''delivered_at'', SqlNull),
              (''locked_by'', SqlNull), (''locked_until'', SqlNull),
              (''last_error'', SqlNull)]"
  have row1: "insert_row (\<lambda>v. []) 7 (table_columns ''webhook_outbox'') ?g1 = Inr ?r1"
    by code_simp
  have row2: "insert_row (\<lambda>v. []) 7 (table_columns ''webhook_outbox'') ?g2 = Inr ?r2"
    by code_simp
  have refs: "references_ok ?db (table_columns ''webhook_outbox'') ?r1"
    "references_ok ?db (table_columns ''webhook_outbox'') ?r2"
    by (simp_all add: references_ok_def outbox_columns pk_def fk_def col_def field_def)
  have one: "insert_into (\<lambda>v. []) 7 ?db ''webhook_outbox'' ?g1
      = Inr (?db(''webhook_outbox'' := [?r1]))"
    using insert_into_row [of "''webhook_outbox''" "\<lambda>v. []" 7 ?g1 ?r1 ?db]
    by (simp add: table_names_eq row1 refs)
  have two: "insert_into (\<lambda>v. []) 7 ?db ''webhook_outbox'' ?g2
      = Inr (?db(''webhook_outbox'' := [?r2]))"
    using insert_into_row [of "''webhook_outbox''" "\<lambda>v. []" 7 ?g2 ?r2 ?db]
    by (simp add: table_names_eq row2 refs)
  from one two show ?thesis by simp
qed

section \<open>Properties of submit and claim\<close>

lemma post_job_inserts:
  assumes "storable b" and "valid_timestamp now"
    and "SqlUuid u \<notin> set (map (\<lambda>j. field j ''id'') (db ''jobs''))"
  shows "post_job to_text now u db b
     = Inr (db(''jobs'' := db ''jobs'' @
          [[(''id'', SqlUuid u), (''kind'', SqlText (request_kind b)),
            (''status'', SqlText ''pending''), (''payload'', SqlJsonb (request_payload b)),
            (''error'', SqlNull), (''created_at'', SqlTimestamp now),
            (''updated_at'', SqlTimestamp now), (''lease_owner'', SqlNull),
            (''lease_until'', SqlNull), (''attempts'', SqlInt 0),
            (''priority'', SqlInt (case request_priority b of None \<Rightarrow> 0 | Some n \<Rightarrow> n)),
            (''queue'', SqlText (case request_queue b of None \<Rightarrow> ''default'' | Some q \<Rightarrow> q))]]))"
proof -
  let ?j = "[(''id'', SqlUuid u), (''kind'', SqlText (request_kind b)),
            (''status'', SqlText ''pending''), (''payload'', SqlJsonb (request_payload b)),
            (''error'', SqlNull), (''created_at'', SqlTimestamp now),
            (''updated_at'', SqlTimestamp now), (''lease_owner'', SqlNull),
            (''lease_until'', SqlNull), (''attempts'', SqlInt 0),
            (''priority'', SqlInt (case request_priority b of None \<Rightarrow> 0 | Some n \<Rightarrow> n)),
            (''queue'', SqlText (case request_queue b of None \<Rightarrow> ''default'' | Some q \<Rightarrow> q))]"
  have row: "insert_row to_text now (table_columns ''jobs'') (insert_job u b) = Inr ?j"
    using assms(1,2) by (rule insert_job_row)
  have fresh: "key_of (table_columns ''jobs'') ?j
      \<notin> set (map (key_of (table_columns ''jobs'')) (db ''jobs''))"
    using assms(3) by (auto simp: key_of_job field_def)
  have "insert_into to_text now db ''jobs'' (insert_job u b) = Inr (db(''jobs'' := db ''jobs'' @ [?j]))"
  proof (rule insert_into_row)
    show "''jobs'' \<in> set table_names" by (simp add: table_names_eq)
    show "insert_row to_text now (table_columns ''jobs'') (insert_job u b) = Inr ?j" by (fact row)
    show "key_of (table_columns ''jobs'') ?j
      \<notin> set (map (key_of (table_columns ''jobs'')) (db ''jobs''))" by (fact fresh)
    show "references_ok db (table_columns ''jobs'') ?j" by (rule job_references_ok)
  qed
  then show ?thesis
    by (simp add: post_job_def)
qed

text \<open>
  Claim C1. A submit succeeds whatever the locks: for every state of the database, also
  one where another live job holds the lock of the dataset the payload declares, the
  submit of a body the table can hold under a fresh id adds one pending job with no
  attempts and changes nothing else. Two submits of one body give two jobs, both pending.
  The conflict comes at claim time: the claim of a pending job whose dataset has a lock
  row that is not expired and names another job is a Conflict, status 409, and leaves the
  job pending.
\<close>

theorem submit_succeeds_conflict_at_claim:
  "(storable b \<and> valid_timestamp now
      \<and> SqlUuid u \<notin> set (map (\<lambda>j. field j ''id'') (db ''jobs'')) \<longrightarrow>
      (\<exists>j. post_job to_text now u db b = Inr (db(''jobs'' := db ''jobs'' @ [j]))
          \<and> field j ''id'' = SqlUuid u \<and> field j ''status'' = SqlText ''pending''
          \<and> field j ''attempts'' = SqlInt 0
          \<and> field j ''payload'' = SqlJsonb (request_payload b)))
   \<and> (storable b \<and> valid_timestamp now \<and> valid_timestamp now' \<and> u \<noteq> u'
      \<and> SqlUuid u \<notin> set (map (\<lambda>j. field j ''id'') (db ''jobs''))
      \<and> SqlUuid u' \<notin> set (map (\<lambda>j. field j ''id'') (db ''jobs'')) \<longrightarrow>
      (\<exists>j j'. post_job to_text now u db b = Inr (db(''jobs'' := db ''jobs'' @ [j]))
          \<and> post_job to_text now' u' (db(''jobs'' := db ''jobs'' @ [j])) b
              = Inr (db(''jobs'' := db ''jobs'' @ [j, j']))
          \<and> field j ''id'' = SqlUuid u \<and> field j' ''id'' = SqlUuid u' \<and> j \<noteq> j'
          \<and> field j ''status'' = SqlText ''pending''
          \<and> field j' ''status'' = SqlText ''pending''))
   \<and> (find (\<lambda>j. field j ''id'' = job) (db ''jobs'') = Some p
      \<and> field p ''status'' = SqlText ''pending'' \<and> dataset_of p = Some d
      \<and> r \<in> set (lock_rows db d) \<and> \<not> lock_expired now r \<and> field r ''job_id'' \<noteq> job \<longrightarrow>
      claim_job now lease grace worker db job = Inl Conflict \<and> status_code Conflict = 409)"
proof -
  have once: "storable b \<and> valid_timestamp now
      \<and> SqlUuid u \<notin> set (map (\<lambda>j. field j ''id'') (db ''jobs'')) \<longrightarrow>
      (\<exists>j. post_job to_text now u db b = Inr (db(''jobs'' := db ''jobs'' @ [j]))
          \<and> field j ''id'' = SqlUuid u \<and> field j ''status'' = SqlText ''pending''
          \<and> field j ''attempts'' = SqlInt 0
          \<and> field j ''payload'' = SqlJsonb (request_payload b))"
  proof
    assume "storable b \<and> valid_timestamp now
      \<and> SqlUuid u \<notin> set (map (\<lambda>j. field j ''id'') (db ''jobs''))"
    then have "post_job to_text now u db b
     = Inr (db(''jobs'' := db ''jobs'' @
          [[(''id'', SqlUuid u), (''kind'', SqlText (request_kind b)),
            (''status'', SqlText ''pending''), (''payload'', SqlJsonb (request_payload b)),
            (''error'', SqlNull), (''created_at'', SqlTimestamp now),
            (''updated_at'', SqlTimestamp now), (''lease_owner'', SqlNull),
            (''lease_until'', SqlNull), (''attempts'', SqlInt 0),
            (''priority'', SqlInt (case request_priority b of None \<Rightarrow> 0 | Some n \<Rightarrow> n)),
            (''queue'', SqlText (case request_queue b of None \<Rightarrow> ''default'' | Some q \<Rightarrow> q))]]))"
      by (intro post_job_inserts) simp_all
    then show "\<exists>j. post_job to_text now u db b = Inr (db(''jobs'' := db ''jobs'' @ [j]))
          \<and> field j ''id'' = SqlUuid u \<and> field j ''status'' = SqlText ''pending''
          \<and> field j ''attempts'' = SqlInt 0
          \<and> field j ''payload'' = SqlJsonb (request_payload b)"
      by (intro exI [of _ "[(''id'', SqlUuid u), (''kind'', SqlText (request_kind b)),
            (''status'', SqlText ''pending''), (''payload'', SqlJsonb (request_payload b)),
            (''error'', SqlNull), (''created_at'', SqlTimestamp now),
            (''updated_at'', SqlTimestamp now), (''lease_owner'', SqlNull),
            (''lease_until'', SqlNull), (''attempts'', SqlInt 0),
            (''priority'', SqlInt (case request_priority b of None \<Rightarrow> 0 | Some n \<Rightarrow> n)),
            (''queue'', SqlText (case request_queue b of None \<Rightarrow> ''default'' | Some q \<Rightarrow> q))]"])
         (simp add: field_def)
  qed
  have twice: "storable b \<and> valid_timestamp now \<and> valid_timestamp now' \<and> u \<noteq> u'
      \<and> SqlUuid u \<notin> set (map (\<lambda>j. field j ''id'') (db ''jobs''))
      \<and> SqlUuid u' \<notin> set (map (\<lambda>j. field j ''id'') (db ''jobs'')) \<longrightarrow>
      (\<exists>j j'. post_job to_text now u db b = Inr (db(''jobs'' := db ''jobs'' @ [j]))
          \<and> post_job to_text now' u' (db(''jobs'' := db ''jobs'' @ [j])) b
              = Inr (db(''jobs'' := db ''jobs'' @ [j, j']))
          \<and> field j ''id'' = SqlUuid u \<and> field j' ''id'' = SqlUuid u' \<and> j \<noteq> j'
          \<and> field j ''status'' = SqlText ''pending''
          \<and> field j' ''status'' = SqlText ''pending'')"
  proof
    assume a: "storable b \<and> valid_timestamp now \<and> valid_timestamp now' \<and> u \<noteq> u'
      \<and> SqlUuid u \<notin> set (map (\<lambda>j. field j ''id'') (db ''jobs''))
      \<and> SqlUuid u' \<notin> set (map (\<lambda>j. field j ''id'') (db ''jobs''))"
    let ?row = "\<lambda>t v. [(''id'', SqlUuid v), (''kind'', SqlText (request_kind b)),
            (''status'', SqlText ''pending''), (''payload'', SqlJsonb (request_payload b)),
            (''error'', SqlNull), (''created_at'', SqlTimestamp t),
            (''updated_at'', SqlTimestamp t), (''lease_owner'', SqlNull),
            (''lease_until'', SqlNull), (''attempts'', SqlInt 0),
            (''priority'', SqlInt (case request_priority b of None \<Rightarrow> 0 | Some n \<Rightarrow> n)),
            (''queue'', SqlText (case request_queue b of None \<Rightarrow> ''default'' | Some q \<Rightarrow> q))]"
    let ?db1 = "db(''jobs'' := db ''jobs'' @ [?row now u])"
    from a have first: "post_job to_text now u db b = Inr ?db1"
      by (intro post_job_inserts) simp_all
    have ids: "field (?row now u) ''id'' = SqlUuid u" "field (?row now' u') ''id'' = SqlUuid u'"
      "field (?row now u) ''status'' = SqlText ''pending''"
      "field (?row now' u') ''status'' = SqlText ''pending''"
      by (simp_all add: field_def)
    from a have fresh': "SqlUuid u' \<notin> set (map (\<lambda>j. field j ''id'') (?db1 ''jobs''))"
      by (auto simp: ids)
    from a have "post_job to_text now' u' ?db1 b
        = Inr (?db1(''jobs'' := ?db1 ''jobs'' @ [?row now' u']))"
      by (intro post_job_inserts fresh') simp_all
    then have second: "post_job to_text now' u' ?db1 b
        = Inr (db(''jobs'' := db ''jobs'' @ [?row now u, ?row now' u']))"
      by simp
    from a have "?row now u \<noteq> ?row now' u'"
      by auto
    with first second show "\<exists>j j'. post_job to_text now u db b = Inr (db(''jobs'' := db ''jobs'' @ [j]))
          \<and> post_job to_text now' u' (db(''jobs'' := db ''jobs'' @ [j])) b
              = Inr (db(''jobs'' := db ''jobs'' @ [j, j']))
          \<and> field j ''id'' = SqlUuid u \<and> field j' ''id'' = SqlUuid u' \<and> j \<noteq> j'
          \<and> field j ''status'' = SqlText ''pending''
          \<and> field j' ''status'' = SqlText ''pending''"
      by (intro exI [of _ "?row now u"] exI [of _ "?row now' u'"]) (simp add: ids)
  qed
  have conflict: "find (\<lambda>j. field j ''id'' = job) (db ''jobs'') = Some p
      \<and> field p ''status'' = SqlText ''pending'' \<and> dataset_of p = Some d
      \<and> r \<in> set (lock_rows db d) \<and> \<not> lock_expired now r \<and> field r ''job_id'' \<noteq> job \<longrightarrow>
      claim_job now lease grace worker db job = Inl Conflict \<and> status_code Conflict = 409"
  proof
    assume a: "find (\<lambda>j. field j ''id'' = job) (db ''jobs'') = Some p
      \<and> field p ''status'' = SqlText ''pending'' \<and> dataset_of p = Some d
      \<and> r \<in> set (lock_rows db d) \<and> \<not> lock_expired now r \<and> field r ''job_id'' \<noteq> job"
    then have "\<not> grantable now db d job"
      by (auto simp: grantable_def list_all_iff)
    with a show "claim_job now lease grace worker db job = Inl Conflict
        \<and> status_code Conflict = 409"
      by (simp add: claim_job_def)
  qed
  from once twice conflict show ?thesis by blast
qed

theorem submit_succeeds_conflict_at_claim_witness:
  "post_job (\<lambda>v. []) 7 0x12
     ((\<lambda>t. [])
       (''jobs'' :=
          [[(''id'', SqlUuid 0x11), (''kind'', SqlText ''train.llm''),
            (''status'', SqlText ''running''),
            (''payload'', SqlJsonb (JObj [(''dataset_id'', JStr ''D1'')])),
            (''error'', SqlNull), (''created_at'', SqlTimestamp 5),
            (''updated_at'', SqlTimestamp 5), (''lease_owner'', SqlText ''w1''),
            (''lease_until'', SqlTimestamp 900), (''attempts'', SqlInt 1),
            (''priority'', SqlInt 0), (''queue'', SqlText ''default'')]],
        ''dataset_locks'' :=
          [[(''dataset_id'', SqlText ''D1''), (''job_id'', SqlUuid 0x11),
            (''lease_until'', SqlTimestamp 900)]]))
     \<lparr> request_kind = ''train.llm'', request_queue = None, request_priority = None,
          request_payload = JObj [(''dataset_id'', JStr ''D1'')] \<rparr>
   = Inr ((\<lambda>t. [])
       (''jobs'' :=
          [[(''id'', SqlUuid 0x11), (''kind'', SqlText ''train.llm''),
            (''status'', SqlText ''running''),
            (''payload'', SqlJsonb (JObj [(''dataset_id'', JStr ''D1'')])),
            (''error'', SqlNull), (''created_at'', SqlTimestamp 5),
            (''updated_at'', SqlTimestamp 5), (''lease_owner'', SqlText ''w1''),
            (''lease_until'', SqlTimestamp 900), (''attempts'', SqlInt 1),
            (''priority'', SqlInt 0), (''queue'', SqlText ''default'')],
           [(''id'', SqlUuid 0x12), (''kind'', SqlText ''train.llm''),
            (''status'', SqlText ''pending''),
            (''payload'', SqlJsonb (JObj [(''dataset_id'', JStr ''D1'')])),
            (''error'', SqlNull), (''created_at'', SqlTimestamp 7),
            (''updated_at'', SqlTimestamp 7), (''lease_owner'', SqlNull),
            (''lease_until'', SqlNull), (''attempts'', SqlInt 0),
            (''priority'', SqlInt 0), (''queue'', SqlText ''default'')]],
        ''dataset_locks'' :=
          [[(''dataset_id'', SqlText ''D1''), (''job_id'', SqlUuid 0x11),
            (''lease_until'', SqlTimestamp 900)]]))
   \<and> post_job (\<lambda>v. []) 8 0x13
     ((\<lambda>t. [])
       (''jobs'' :=
          [[(''id'', SqlUuid 0x11), (''kind'', SqlText ''train.llm''),
            (''status'', SqlText ''running''),
            (''payload'', SqlJsonb (JObj [(''dataset_id'', JStr ''D1'')])),
            (''error'', SqlNull), (''created_at'', SqlTimestamp 5),
            (''updated_at'', SqlTimestamp 5), (''lease_owner'', SqlText ''w1''),
            (''lease_until'', SqlTimestamp 900), (''attempts'', SqlInt 1),
            (''priority'', SqlInt 0), (''queue'', SqlText ''default'')],
           [(''id'', SqlUuid 0x12), (''kind'', SqlText ''train.llm''),
            (''status'', SqlText ''pending''),
            (''payload'', SqlJsonb (JObj [(''dataset_id'', JStr ''D1'')])),
            (''error'', SqlNull), (''created_at'', SqlTimestamp 7),
            (''updated_at'', SqlTimestamp 7), (''lease_owner'', SqlNull),
            (''lease_until'', SqlNull), (''attempts'', SqlInt 0),
            (''priority'', SqlInt 0), (''queue'', SqlText ''default'')]],
        ''dataset_locks'' :=
          [[(''dataset_id'', SqlText ''D1''), (''job_id'', SqlUuid 0x11),
            (''lease_until'', SqlTimestamp 900)]]))
     \<lparr> request_kind = ''train.llm'', request_queue = None, request_priority = None,
          request_payload = JObj [(''dataset_id'', JStr ''D1'')] \<rparr>
   = Inr ((\<lambda>t. [])
       (''jobs'' :=
          [[(''id'', SqlUuid 0x11), (''kind'', SqlText ''train.llm''),
            (''status'', SqlText ''running''),
            (''payload'', SqlJsonb (JObj [(''dataset_id'', JStr ''D1'')])),
            (''error'', SqlNull), (''created_at'', SqlTimestamp 5),
            (''updated_at'', SqlTimestamp 5), (''lease_owner'', SqlText ''w1''),
            (''lease_until'', SqlTimestamp 900), (''attempts'', SqlInt 1),
            (''priority'', SqlInt 0), (''queue'', SqlText ''default'')],
           [(''id'', SqlUuid 0x12), (''kind'', SqlText ''train.llm''),
            (''status'', SqlText ''pending''),
            (''payload'', SqlJsonb (JObj [(''dataset_id'', JStr ''D1'')])),
            (''error'', SqlNull), (''created_at'', SqlTimestamp 7),
            (''updated_at'', SqlTimestamp 7), (''lease_owner'', SqlNull),
            (''lease_until'', SqlNull), (''attempts'', SqlInt 0),
            (''priority'', SqlInt 0), (''queue'', SqlText ''default'')],
           [(''id'', SqlUuid 0x13), (''kind'', SqlText ''train.llm''),
            (''status'', SqlText ''pending''),
            (''payload'', SqlJsonb (JObj [(''dataset_id'', JStr ''D1'')])),
            (''error'', SqlNull), (''created_at'', SqlTimestamp 8),
            (''updated_at'', SqlTimestamp 8), (''lease_owner'', SqlNull),
            (''lease_until'', SqlNull), (''attempts'', SqlInt 0),
            (''priority'', SqlInt 0), (''queue'', SqlText ''default'')]],
        ''dataset_locks'' :=
          [[(''dataset_id'', SqlText ''D1''), (''job_id'', SqlUuid 0x11),
            (''lease_until'', SqlTimestamp 900)]]))
   \<and> claim_job 9 120 5 ''w2''
     ((\<lambda>t. [])
       (''jobs'' :=
          [[(''id'', SqlUuid 0x11), (''kind'', SqlText ''train.llm''),
            (''status'', SqlText ''running''),
            (''payload'', SqlJsonb (JObj [(''dataset_id'', JStr ''D1'')])),
            (''error'', SqlNull), (''created_at'', SqlTimestamp 5),
            (''updated_at'', SqlTimestamp 5), (''lease_owner'', SqlText ''w1''),
            (''lease_until'', SqlTimestamp 900), (''attempts'', SqlInt 1),
            (''priority'', SqlInt 0), (''queue'', SqlText ''default'')],
           [(''id'', SqlUuid 0x12), (''kind'', SqlText ''train.llm''),
            (''status'', SqlText ''pending''),
            (''payload'', SqlJsonb (JObj [(''dataset_id'', JStr ''D1'')])),
            (''error'', SqlNull), (''created_at'', SqlTimestamp 7),
            (''updated_at'', SqlTimestamp 7), (''lease_owner'', SqlNull),
            (''lease_until'', SqlNull), (''attempts'', SqlInt 0),
            (''priority'', SqlInt 0), (''queue'', SqlText ''default'')]],
        ''dataset_locks'' :=
          [[(''dataset_id'', SqlText ''D1''), (''job_id'', SqlUuid 0x11),
            (''lease_until'', SqlTimestamp 900)]]))
     (SqlUuid 0x12)
   = Inl Conflict
   \<and> status_code Conflict = 409"
proof -
  let ?j1 = "[(''id'', SqlUuid 0x11), (''kind'', SqlText ''train.llm''),
            (''status'', SqlText ''running''),
            (''payload'', SqlJsonb (JObj [(''dataset_id'', JStr ''D1'')])),
            (''error'', SqlNull), (''created_at'', SqlTimestamp 5),
            (''updated_at'', SqlTimestamp 5), (''lease_owner'', SqlText ''w1''),
            (''lease_until'', SqlTimestamp 900), (''attempts'', SqlInt 1),
            (''priority'', SqlInt 0), (''queue'', SqlText ''default'')]"
  let ?p = "[(''id'', SqlUuid 0x12), (''kind'', SqlText ''train.llm''),
            (''status'', SqlText ''pending''),
            (''payload'', SqlJsonb (JObj [(''dataset_id'', JStr ''D1'')])),
            (''error'', SqlNull), (''created_at'', SqlTimestamp 7),
            (''updated_at'', SqlTimestamp 7), (''lease_owner'', SqlNull),
            (''lease_until'', SqlNull), (''attempts'', SqlInt 0),
            (''priority'', SqlInt 0), (''queue'', SqlText ''default'')]"
  let ?p' = "[(''id'', SqlUuid 0x13), (''kind'', SqlText ''train.llm''),
            (''status'', SqlText ''pending''),
            (''payload'', SqlJsonb (JObj [(''dataset_id'', JStr ''D1'')])),
            (''error'', SqlNull), (''created_at'', SqlTimestamp 8),
            (''updated_at'', SqlTimestamp 8), (''lease_owner'', SqlNull),
            (''lease_until'', SqlNull), (''attempts'', SqlInt 0),
            (''priority'', SqlInt 0), (''queue'', SqlText ''default'')]"
  let ?lock = "[(''dataset_id'', SqlText ''D1''), (''job_id'', SqlUuid 0x11),
            (''lease_until'', SqlTimestamp 900)]"
  let ?b = "\<lparr> request_kind = ''train.llm'', request_queue = None, request_priority = None,
          request_payload = JObj [(''dataset_id'', JStr ''D1'')] \<rparr>"
  let ?db = "(\<lambda>t. [])(''jobs'' := [?j1], ''dataset_locks'' := [?lock]) :: database"
  let ?db1 = "(\<lambda>t. [])(''jobs'' := [?j1, ?p], ''dataset_locks'' := [?lock]) :: database"
  let ?db2 = "(\<lambda>t. [])(''jobs'' := [?j1, ?p, ?p'], ''dataset_locks'' := [?lock]) :: database"
  have body: "storable ?b" "valid_timestamp 7" "valid_timestamp 8"
    by (simp_all add: storable_def valid_text_def valid_timestamp_def)
  have fresh: "SqlUuid 0x12 \<notin> set (map (\<lambda>j. field j ''id'') (?db ''jobs''))"
    "SqlUuid 0x13 \<notin> set (map (\<lambda>j. field j ''id'') (?db ''jobs''))"
    by (simp_all add: field_def)
  have ids: "(0x12 :: 128 word) \<noteq> 0x13"
    by simp
  have updates: "?db(''jobs'' := ?db ''jobs'' @ [?p]) = ?db1"
    "?db(''jobs'' := ?db ''jobs'' @ [?p, ?p']) = ?db2"
    by (simp_all add: fun_eq_iff)
  from submit_succeeds_conflict_at_claim
    [where b = ?b and now = 7 and now' = 8 and u = "0x12" and u' = "0x13" and db = ?db
       and to_text = "\<lambda>v. []"] body fresh ids
  have "\<exists>j j'. post_job (\<lambda>v. []) 7 0x12 ?db ?b = Inr (?db(''jobs'' := ?db ''jobs'' @ [j]))
      \<and> post_job (\<lambda>v. []) 8 0x13 (?db(''jobs'' := ?db ''jobs'' @ [j])) ?b
          = Inr (?db(''jobs'' := ?db ''jobs'' @ [j, j']))
      \<and> field j ''id'' = SqlUuid 0x12 \<and> field j' ''id'' = SqlUuid 0x13 \<and> j \<noteq> j'
      \<and> field j ''status'' = SqlText ''pending''
      \<and> field j' ''status'' = SqlText ''pending''"
    by blast
  then obtain j j' where
    first: "post_job (\<lambda>v. []) 7 0x12 ?db ?b = Inr (?db(''jobs'' := ?db ''jobs'' @ [j]))"
    and second: "post_job (\<lambda>v. []) 8 0x13 (?db(''jobs'' := ?db ''jobs'' @ [j])) ?b
          = Inr (?db(''jobs'' := ?db ''jobs'' @ [j, j']))"
    and pending: "field j ''status'' = SqlText ''pending''"
      "field j' ''status'' = SqlText ''pending''"
    by blast
  have row: "post_job (\<lambda>v. []) 7 0x12 ?db ?b = Inr (?db(''jobs'' := ?db ''jobs'' @ [?p]))"
    using post_job_inserts
      [where b = ?b and now = 7 and u = "0x12" and db = ?db and to_text = "\<lambda>v. []"]
      body fresh
    by (simp add: field_def)
  from first [symmetric] row
  have "(Inr (?db(''jobs'' := ?db ''jobs'' @ [j])) :: api_error + database)
      = Inr (?db(''jobs'' := ?db ''jobs'' @ [?p]))"
    by (rule trans)
  then have "?db(''jobs'' := ?db ''jobs'' @ [j]) = ?db(''jobs'' := ?db ''jobs'' @ [?p])"
    by (simp only: sum.inject)
  then have "(?db(''jobs'' := ?db ''jobs'' @ [j])) ''jobs''
      = (?db(''jobs'' := ?db ''jobs'' @ [?p])) ''jobs''"
    by (rule fun_cong)
  then have j: "j = ?p"
    by simp
  have row': "post_job (\<lambda>v. []) 8 0x13 (?db(''jobs'' := ?db ''jobs'' @ [?p])) ?b
      = Inr (?db(''jobs'' := ?db ''jobs'' @ [?p, ?p']))"
    using post_job_inserts
      [where b = ?b and now = 8 and u = "0x13" and db = "?db(''jobs'' := ?db ''jobs'' @ [?p])"
         and to_text = "\<lambda>v. []"]
      body
    by (simp add: field_def)
  from second [symmetric, unfolded j] row'
  have "(Inr (?db(''jobs'' := ?db ''jobs'' @ [?p, j'])) :: api_error + database)
      = Inr (?db(''jobs'' := ?db ''jobs'' @ [?p, ?p']))"
    by (rule trans)
  then have "?db(''jobs'' := ?db ''jobs'' @ [?p, j']) = ?db(''jobs'' := ?db ''jobs'' @ [?p, ?p'])"
    by (simp only: sum.inject)
  then have "(?db(''jobs'' := ?db ''jobs'' @ [?p, j'])) ''jobs''
      = (?db(''jobs'' := ?db ''jobs'' @ [?p, ?p'])) ''jobs''"
    by (rule fun_cong)
  then have j': "j' = ?p'"
    by simp
  have found: "find (\<lambda>j. field j ''id'' = SqlUuid 0x12) (?db1 ''jobs'') = Some ?p"
    by (simp add: field_def)
  have facts: "field ?p ''status'' = SqlText ''pending''" "dataset_of ?p = Some ''D1''"
    "?lock \<in> set (lock_rows ?db1 ''D1'')" "\<not> lock_expired 9 ?lock"
    "field ?lock ''job_id'' \<noteq> SqlUuid 0x12"
    by (simp_all add: field_def dataset_of_def lock_rows_def lock_expired_def)
  from submit_succeeds_conflict_at_claim
    [where db = ?db1 and job = "SqlUuid 0x12" and p = ?p and d = "''D1''" and r = ?lock
       and now = 9 and lease = 120 and grace = 5 and worker = "''w2''"] found facts
  have conflict: "claim_job 9 120 5 ''w2'' ?db1 (SqlUuid 0x12) = Inl Conflict
      \<and> status_code Conflict = 409"
    by blast
  have one: "post_job (\<lambda>v. []) 7 0x12 ?db ?b = Inr ?db1"
    using first unfolding j updates(1) .
  have two: "post_job (\<lambda>v. []) 8 0x13 ?db1 ?b = Inr ?db2"
    using second unfolding j j' updates .
  from one two conflict show ?thesis by blast
qed

end
